theory Spec2Isabelle
  imports Complex_Main "HOL-Library.Word" "HOL-Library.Sublist"
begin

section \<open>JavaScript strings\<close>

text \<open>
  A JavaScript string is a sequence of UTF-16 code units; \<open>length\<close>, \<open>slice\<close> and
  \<open>trim\<close> all count and cut code units. A string is therefore a list of 16-bit words, and
  \<open>js\<close> embeds an ASCII literal of the source.
\<close>

type_synonym jsstring = "16 word list"

definition js :: "string \<Rightarrow> jsstring" where
  "js s = map of_char s"

text \<open>
  \<open>String.prototype.trim\<close> strips the ECMAScript WhiteSpace and LineTerminator code points
  from both ends.
\<close>

definition isWhiteSpace :: "16 word \<Rightarrow> bool" where
  "isWhiteSpace c \<longleftrightarrow>
     c \<in> {0x9, 0xA, 0xB, 0xC, 0xD, 0x20, 0xA0, 0x1680, 0x2028, 0x2029, 0x202F, 0x205F,
          0x3000, 0xFEFF}
     \<or> (0x2000 \<le> c \<and> c \<le> 0x200A)"

definition trim :: "jsstring \<Rightarrow> jsstring" where
  "trim s = rev (dropWhile isWhiteSpace (rev (dropWhile isWhiteSpace s)))"

text \<open>\<open>Array.prototype.join\<close> on an array of strings.\<close>

fun join :: "jsstring \<Rightarrow> jsstring list \<Rightarrow> jsstring" where
  "join sep [] = []"
| "join sep [x] = x"
| "join sep (x # y # ys) = x @ sep @ join sep (y # ys)"

text \<open>\<open>String.prototype.split\<close> with a one-unit separator: the empty string gives \<open>['']\<close>.\<close>

fun split :: "16 word \<Rightarrow> jsstring \<Rightarrow> jsstring list" where
  "split d [] = [[]]"
| "split d (c # cs) =
     (if c = d then [] # split d cs
      else (case split d cs of l # ls \<Rightarrow> (c # l) # ls | [] \<Rightarrow> [[c]]))"

definition startsWith :: "jsstring \<Rightarrow> jsstring \<Rightarrow> bool" where
  "startsWith s p \<longleftrightarrow> take (length p) s = p"

text \<open>The decimal rendering of a non-negative integer, as a template literal prints it.\<close>

fun showNat :: "nat \<Rightarrow> jsstring" where
  "showNat n =
     (if n < 10 then [of_nat (48 + n)]
      else showNat (n div 10) @ [of_nat (48 + n mod 10)])"

declare showNat.simps [simp del]

section \<open>JSON values\<close>

text \<open>
  A JavaScript number is a double: a finite value (a rational), an infinity or NaN. Only
  comparisons and truthiness of numbers are used, and both are exact on this model.
\<close>

datatype jsnum = NaN | NegInf | Num rat | PosInf

text \<open>
  The value \<open>JSON.parse\<close> returns. An object is the list of its own properties in
  enumeration order, with distinct keys.
\<close>

datatype json =
    JNull
  | JBool bool
  | JNum jsnum
  | JStr jsstring
  | JArr "json list"
  | JObj "(jsstring \<times> json) list"

text \<open>Truthiness of a value; \<open>None\<close> is \<open>undefined\<close>.\<close>

fun truthy :: "json option \<Rightarrow> bool" where
  "truthy None = False"
| "truthy (Some JNull) = False"
| "truthy (Some (JBool b)) = b"
| "truthy (Some (JNum n)) = (n \<noteq> NaN \<and> n \<noteq> Num 0)"
| "truthy (Some (JStr s)) = (s \<noteq> [])"
| "truthy (Some (JArr xs)) = True"
| "truthy (Some (JObj kvs)) = True"

text \<open>
  Reading one of the properties \<open>name\<close>, \<open>description\<close>, \<open>dependencies\<close>,
  \<open>devDependencies\<close> of a non-null value: only an object can have it.
\<close>

fun getProp :: "json \<Rightarrow> jsstring \<Rightarrow> json option" where
  "getProp (JObj kvs) k = map_of kvs k"
| "getProp v k = None"

text \<open>\<open>Object.keys\<close>: property names of an object, indices of an array or a string.\<close>

fun objectKeys :: "json \<Rightarrow> jsstring list" where
  "objectKeys (JObj kvs) = map fst kvs"
| "objectKeys (JArr xs) = map showNat [0..<length xs]"
| "objectKeys (JStr s) = map showNat [0..<length s]"
| "objectKeys v = []"

section \<open>Context auto-detection\<close>

text \<open>
  The working directory as the detector sees it: a path relative to it is absent
  (\<open>existsSync\<close> is false), unreadable (\<open>readFileSync\<close> throws) or has a content.
\<close>

datatype fileState = Absent | Unreadable | Content jsstring

type_synonym filesystem = "jsstring \<Rightarrow> fileState"

record source =
  fileName :: jsstring
  extractor :: "jsstring \<Rightarrow> jsstring"

definition MAX_CHARS :: nat where
  "MAX_CHARS = 700"

text \<open>
  The extractor of \<open>package.json\<close>. \<open>JSON.parse\<close> (\<open>None\<close> when it throws) and the
  string conversion of a value inside a template literal (\<open>None\<close> when it throws) are
  built-ins of the platform and are parameters. Every exception inside the \<open>try\<close> block,
  among them the property read on \<open>null\<close>, gives the empty string.
\<close>

definition partOf :: "(json \<Rightarrow> jsstring option) \<Rightarrow> string \<Rightarrow> json option
    \<Rightarrow> jsstring list option" where
  "partOf toStr label v =
     (if truthy v then
        (case v of None \<Rightarrow> Some []
         | Some x \<Rightarrow> (case toStr x of None \<Rightarrow> None | Some s \<Rightarrow> Some [js label @ s]))
      else Some [])"

definition orEmptyObject :: "json option \<Rightarrow> json" where
  "orEmptyObject v = (case v of None \<Rightarrow> JObj [] | Some x \<Rightarrow> if truthy v then x else JObj [])"

definition packageJsonExtractor ::
  "(jsstring \<Rightarrow> json option) \<Rightarrow> (json \<Rightarrow> jsstring option) \<Rightarrow> jsstring \<Rightarrow> jsstring" where
  "packageJsonExtractor parse toStr c =
     (case parse c of
        None \<Rightarrow> []
      | Some JNull \<Rightarrow> []
      | Some pkg \<Rightarrow>
         (case partOf toStr ''name: '' (getProp pkg (js ''name'')) of
            None \<Rightarrow> []
          | Some nameParts \<Rightarrow>
             (case partOf toStr ''description: '' (getProp pkg (js ''description'')) of
                None \<Rightarrow> []
              | Some descriptionParts \<Rightarrow>
                 (let deps = take 8
                        (objectKeys (orEmptyObject (getProp pkg (js ''dependencies'')))
                         @ objectKeys (orEmptyObject (getProp pkg (js ''devDependencies''))));
                      depsParts = (if deps \<noteq> [] then [js ''deps: '' @ join (js '', '') deps]
                                   else [])
                  in join (js '' | '') (nameParts @ descriptionParts @ depsParts)))))"

definition sources ::
  "(jsstring \<Rightarrow> json option) \<Rightarrow> (json \<Rightarrow> jsstring option) \<Rightarrow> source list" where
  "sources parse toStr =
     [\<lparr>fileName = js ''AGENTS.md'', extractor = take 300\<rparr>,
      \<lparr>fileName = js ''CLAUDE.md'', extractor = take 300\<rparr>,
      \<lparr>fileName = js ''CODEX.md'', extractor = take 300\<rparr>,
      \<lparr>fileName = js ''GEMINI.md'', extractor = take 300\<rparr>,
      \<lparr>fileName = js ''.github/copilot-instructions.md'', extractor = take 300\<rparr>,
      \<lparr>fileName = js ''.windsurfrules'', extractor = take 300\<rparr>,
      \<lparr>fileName = js ''llms.txt'', extractor = take 300\<rparr>,
      \<lparr>fileName = js ''README.md'', extractor = take 300\<rparr>,
      \<lparr>fileName = js ''package.json'', extractor = packageJsonExtractor parse toStr\<rparr>,
      \<lparr>fileName = js ''prisma/schema.prisma'', extractor = take 300\<rparr>]"

record detectState =
  collected :: "jsstring list"
  usedSources :: "jsstring list"
  totalChars :: nat

definition initState :: detectState where
  "initState = \<lparr>collected = [], usedSources = [], totalChars = 0\<rparr>"

text \<open>
  The \<open>for\<close> loop over the table: \<open>break\<close> returns the state, \<open>continue\<close> goes on with
  the rest of the table and the state unchanged.
\<close>

fun detectLoop :: "filesystem \<Rightarrow> source list \<Rightarrow> detectState \<Rightarrow> detectState" where
  "detectLoop fs [] st = st"
| "detectLoop fs (s # rest) st =
     (if totalChars st \<ge> MAX_CHARS then st
      else (case fs (fileName s) of
              Absent \<Rightarrow> detectLoop fs rest st
            | Unreadable \<Rightarrow> detectLoop fs rest st
            | Content raw \<Rightarrow>
               (let content = trim raw in
                if content = [] then detectLoop fs rest st
                else
                  (let extracted = trim (extractor s content) in
                   if extracted = [] then detectLoop fs rest st
                   else
                     (let remaining = MAX_CHARS - totalChars st;
                          chunk = take remaining extracted
                      in detectLoop fs rest
                           (st\<lparr>collected := collected st @ [chunk],
                               usedSources := usedSources st @ [fileName s],
                               totalChars := totalChars st + length chunk\<rparr>))))))"

text \<open>
  What follows the loop: \<open>undefined\<close> when nothing was collected, otherwise the joined
  string, with the diagnostic line written to the error stream.
\<close>

definition report :: "detectState \<Rightarrow> jsstring option \<times> jsstring list" where
  "report st =
     (if collected st = [] then (None, [])
      else
        (let combined = join (js '' | '') (collected st)
         in (Some combined,
             [js ''Auto-detected project context from: '' @ join (js '', '') (usedSources st)
              @ js '' ('' @ showNat (length combined) @ js '' chars)''])))"

definition detectProjectContext ::
  "(jsstring \<Rightarrow> json option) \<Rightarrow> (json \<Rightarrow> jsstring option) \<Rightarrow> filesystem
    \<Rightarrow> jsstring option \<times> jsstring list" where
  "detectProjectContext parse toStr fs = report (detectLoop fs (sources parse toStr) initState)"

section \<open>The refine client\<close>

definition API_HOST :: jsstring where
  "API_HOST = js ''refinebacklog.com''"

definition API_PATH :: jsstring where
  "API_PATH = js ''/api/refine''"

definition VERSION :: jsstring where
  "VERSION = js ''1.0.2''"

text \<open>
  The object given to \<open>JSON.stringify\<close>. Spreading \<open>undefined\<close>, \<open>false\<close> or the
  empty string adds no property, so each optional property is there only when its option is
  truthy. An absent flag and a false one behave alike and are both \<open>False\<close>.
\<close>

definition requestObject :: "jsstring list \<Rightarrow> jsstring option \<Rightarrow> bool \<Rightarrow> bool \<Rightarrow> json" where
  "requestObject items context useUserStories useGherkin =
     JObj ([(js ''items'', JArr (map JStr items))]
           @ (case context of
                None \<Rightarrow> []
              | Some c \<Rightarrow> if c \<noteq> [] then [(js ''context'', JStr c)] else [])
           @ (if useUserStories then [(js ''useUserStories'', JBool True)] else [])
           @ (if useGherkin then [(js ''useGherkin'', JBool True)] else []))"

text \<open>
  The headers, in insertion order. \<open>JSON.stringify\<close> and \<open>Buffer.byteLength\<close> are
  built-ins of the platform and are parameters.
\<close>

definition requestHeaders ::
  "(jsstring \<Rightarrow> nat) \<Rightarrow> jsstring \<Rightarrow> jsstring option \<Rightarrow> (jsstring \<times> jsstring) list" where
  "requestHeaders byteLength body licenseKey =
     [(js ''Content-Type'', js ''application/json''),
      (js ''Content-Length'', showNat (byteLength body)),
      (js ''User-Agent'', js ''refine-backlog-cli/'' @ VERSION)]
     @ (case licenseKey of
          None \<Rightarrow> []
        | Some k \<Rightarrow> if k \<noteq> [] then [(js ''x-license-key'', k)] else [])"

record httpRequest =
  reqHostname :: jsstring
  reqPath :: jsstring
  reqMethod :: jsstring
  reqHeaders :: "(jsstring \<times> jsstring) list"
  reqBody :: jsstring

definition callApi_request ::
  "(json \<Rightarrow> jsstring) \<Rightarrow> (jsstring \<Rightarrow> nat) \<Rightarrow> jsstring list \<Rightarrow> jsstring option \<Rightarrow> bool \<Rightarrow> bool
    \<Rightarrow> jsstring option \<Rightarrow> httpRequest" where
  "callApi_request stringify byteLength items context useUserStories useGherkin licenseKey =
     (let body = stringify (requestObject items context useUserStories useGherkin)
      in \<lparr>reqHostname = API_HOST, reqPath = API_PATH, reqMethod = js ''POST'',
          reqHeaders = requestHeaders byteLength body licenseKey, reqBody = body\<rparr>)"

text \<open>
  The response as the \<open>end\<close> handler sees it: \<open>statusCode\<close> is a number or
  \<open>undefined\<close>, \<open>data\<close> the whole body. The handler rejects with a message (\<open>Inl\<close>) or
  resolves with the parsed body (\<open>Inr\<close>).
\<close>

record httpResponse =
  statusCode :: "nat option"
  data :: jsstring

definition showStatus :: "nat option \<Rightarrow> jsstring" where
  "showStatus s = (case s of None \<Rightarrow> js ''undefined'' | Some n \<Rightarrow> showNat n)"

definition callApi_response :: "(jsstring \<Rightarrow> json option) \<Rightarrow> httpResponse \<Rightarrow> jsstring + json" where
  "callApi_response parse res =
     (if statusCode res = Some 429 then
        Inl (js ''Rate limit hit. Upgrade at refinebacklog.com/pricing or pass --key'')
      else if statusCode res = Some 402 then
        Inl (js ''Too many items for free tier. Upgrade at refinebacklog.com/pricing'')
      else if (case statusCode res of None \<Rightarrow> True | Some n \<Rightarrow> n = 0 \<or> n \<ge> 400) then
        Inl (js ''API error '' @ showStatus (statusCode res) @ js '': '' @ data res)
      else (case parse (data res) of
              Some v \<Rightarrow> Inr v
            | None \<Rightarrow> Inl (js ''Invalid JSON response: '' @ take 200 (data res))))"

section \<open>The markdown formatter\<close>

text \<open>
  The four fields the formatter tests before use are optional here, the others are the
  strings the interface declares.
\<close>

record RefinedItem =
  title :: jsstring
  problemStatement :: jsstring
  acceptanceCriteria :: "jsstring list option"
  estimate :: jsstring
  priority :: jsstring
  rationale :: "jsstring option"
  tags :: "jsstring list option"
  userStory :: "jsstring option"

definition userStoryLines :: "RefinedItem \<Rightarrow> jsstring list" where
  "userStoryLines item =
     (case userStory item of
        None \<Rightarrow> []
      | Some u \<Rightarrow> if u \<noteq> [] then [js ''\<newline>> '' @ u] else [])"

definition rationaleLines :: "RefinedItem \<Rightarrow> jsstring list" where
  "rationaleLines item =
     (case rationale item of
        None \<Rightarrow> []
      | Some r \<Rightarrow> if r \<noteq> [] then [js ''**Rationale:** '' @ r] else [])"

definition acceptanceCriteriaLines :: "RefinedItem \<Rightarrow> jsstring list" where
  "acceptanceCriteriaLines item =
     (case acceptanceCriteria item of
        None \<Rightarrow> []
      | Some acs \<Rightarrow>
          if length acs \<noteq> 0
          then js ''\<newline>**Acceptance Criteria:**'' # map (\<lambda>ac. js ''- '' @ ac) acs
          else [])"

definition tagsLines :: "RefinedItem \<Rightarrow> jsstring list" where
  "tagsLines item =
     (case tags item of
        None \<Rightarrow> []
      | Some ts \<Rightarrow>
          if length ts \<noteq> 0 then [js ''\<newline>**Tags:** '' @ join (js '', '') ts] else [])"

definition itemLines :: "RefinedItem \<Rightarrow> jsstring list" where
  "itemLines item =
     [js ''## '' @ title item]
     @ userStoryLines item
     @ [js ''\<newline>**Problem:** '' @ problemStatement item]
     @ [js ''\<newline>**Estimate:** '' @ estimate item @ js '' | **Priority:** '' @ priority item]
     @ rationaleLines item
     @ acceptanceCriteriaLines item
     @ tagsLines item"

definition formatItem :: "RefinedItem \<Rightarrow> jsstring" where
  "formatItem item = join (js ''\<newline>'') (itemLines item)"

definition separator :: jsstring where
  "separator = js ''\<newline>\<newline>---\<newline>\<newline>''"

definition formatMarkdown :: "RefinedItem list \<Rightarrow> jsstring" where
  "formatMarkdown items = join separator (map formatItem items)"

section \<open>The input collector and the default flow\<close>

text \<open>
  Standard input is a terminal (\<open>None\<close>) or the lines the \<open>readline\<close> interface
  delivers.
\<close>

definition readStdin :: "jsstring list option \<Rightarrow> jsstring list" where
  "readStdin stdin =
     (case stdin of
        None \<Rightarrow> []
      | Some lines \<Rightarrow> filter (\<lambda>trimmed. trimmed \<noteq> []) (map trim lines))"

record cliOptions =
  items :: "jsstring list"
  format :: jsstring
  contextOpt :: "jsstring option"
  licenseKey :: "jsstring option"
  useUserStories :: bool
  useGherkin :: bool
  filePath :: "jsstring option"
  noAutoContext :: bool
  contextExplicitlyProvided :: bool

definition initialOptions :: cliOptions where
  "initialOptions =
     \<lparr>items = [], format = js ''markdown'', contextOpt = None, licenseKey = None,
      useUserStories = False, useGherkin = False, filePath = None, noAutoContext = False,
      contextExplicitlyProvided = False\<rparr>"

text \<open>
  \<open>args[++i]\<close>: the argument after the current one, \<open>undefined\<close> past the end. The
  loop goes on after it (\<open>tl\<close>), and ends when there is none.
\<close>

definition nextArg :: "jsstring list \<Rightarrow> jsstring option" where
  "nextArg rest = (case rest of [] \<Rightarrow> None | v # _ \<Rightarrow> Some v)"

fun parseArgs :: "jsstring list \<Rightarrow> cliOptions \<Rightarrow> cliOptions" where
  "parseArgs [] opts = opts"
| "parseArgs (arg # rest) opts =
    (if arg = js ''--format'' then
       parseArgs (tl rest)
         (opts\<lparr>format :=
            (case nextArg rest of
               None \<Rightarrow> js ''markdown''
             | Some v \<Rightarrow> if v = [] then js ''markdown'' else v)\<rparr>)
     else if arg = js ''--context'' \<or> arg = js ''-c'' then
       parseArgs (tl rest) (opts\<lparr>contextOpt := nextArg rest, contextExplicitlyProvided := True\<rparr>)
     else if arg = js ''--no-auto-context'' then
       parseArgs rest (opts\<lparr>noAutoContext := True\<rparr>)
     else if arg = js ''--key'' \<or> arg = js ''-k'' then
       parseArgs (tl rest) (opts\<lparr>licenseKey := nextArg rest\<rparr>)
     else if arg = js ''--file'' \<or> arg = js ''-f'' then
       parseArgs (tl rest) (opts\<lparr>filePath := nextArg rest\<rparr>)
     else if arg = js ''--user-stories'' then
       parseArgs rest (opts\<lparr>useUserStories := True\<rparr>)
     else if arg = js ''--gherkin'' then
       parseArgs rest (opts\<lparr>useGherkin := True\<rparr>)
     else if \<not> startsWith arg (js ''-'') then
       parseArgs rest (opts\<lparr>items := items opts @ [arg]\<rparr>)
     else parseArgs rest opts)"

text \<open>
  What the process writes and calls, in order; the text of the help screen is not expanded.
  A run ends early with these events and an exit status.
\<close>

datatype event = ConsoleLog jsstring | ConsoleError jsstring | ShowHelp | UncaughtException

type_synonym exit = "event list \<times> nat"

definition fileLines :: "jsstring \<Rightarrow> jsstring list" where
  "fileLines content = filter (\<lambda>l. l \<noteq> []) (map trim (split 0xA content))"

text \<open>
  The items after the three sources are merged. A named file that does not exist ends the
  run with status 1 before standard input is read; one that cannot be read throws out of
  \<open>main\<close>.
\<close>

definition collectItems :: "filesystem \<Rightarrow> jsstring list option \<Rightarrow> cliOptions \<Rightarrow> exit + jsstring list" where
  "collectItems fs stdin opts =
     (case (case filePath opts of
              None \<Rightarrow> Inr (items opts)
            | Some p \<Rightarrow>
                if p = [] then Inr (items opts)
                else (case fs p of
                        Absent \<Rightarrow> Inl ([ConsoleError (js ''Error: File not found: '' @ p)], 1)
                      | Unreadable \<Rightarrow> Inl ([UncaughtException], 1)
                      | Content c \<Rightarrow> Inr (items opts @ fileLines c))) of
        Inl e \<Rightarrow> Inl e
      | Inr fromFile \<Rightarrow> Inr (fromFile @ readStdin stdin))"

text \<open>The context sent: the detected one when detection runs and finds something.\<close>

definition resolveContext ::
  "(jsstring \<Rightarrow> json option) \<Rightarrow> (json \<Rightarrow> jsstring option) \<Rightarrow> filesystem \<Rightarrow> cliOptions
    \<Rightarrow> jsstring option \<times> event list" where
  "resolveContext parse toStr fs opts =
     (if \<not> contextExplicitlyProvided opts \<and> \<not> noAutoContext opts then
        (case detectProjectContext parse toStr fs of
           (detected, diagnostics) \<Rightarrow>
             ((case detected of
                 None \<Rightarrow> contextOpt opts
               | Some d \<Rightarrow> if d \<noteq> [] then Some d else contextOpt opts),
              map ConsoleError diagnostics))
      else (contextOpt opts, []))"

text \<open>
  \<open>main\<close> up to the request it sends: the events so far and the request, or an early
  exit.
\<close>

definition main_request ::
  "(jsstring \<Rightarrow> json option) \<Rightarrow> (json \<Rightarrow> jsstring option) \<Rightarrow> (json \<Rightarrow> jsstring) \<Rightarrow> (jsstring \<Rightarrow> nat)
    \<Rightarrow> filesystem \<Rightarrow> jsstring list option \<Rightarrow> jsstring list \<Rightarrow> exit + (event list \<times> httpRequest)" where
  "main_request parse toStr stringify byteLength fs stdin args =
     (if js ''--help'' \<in> set args \<or> js ''-h'' \<in> set args then Inl ([ShowHelp], 0)
      else if js ''--version'' \<in> set args \<or> js ''-v'' \<in> set args then
        Inl ([ConsoleLog (js ''refine-backlog-cli v'' @ VERSION)], 0)
      else
        (let opts = parseArgs args initialOptions in
         case collectItems fs stdin opts of
           Inl e \<Rightarrow> Inl e
         | Inr allItems \<Rightarrow>
             if length allItems = 0 then
               Inl ([ConsoleError
                      (js ''Error: No items provided. Pass items as arguments, use --file, or pipe via stdin.\<newline>''),
                     ShowHelp], 1)
             else
               (case resolveContext parse toStr fs opts of
                  (context, diagnostics) \<Rightarrow>
                    Inr (diagnostics,
                         callApi_request stringify byteLength allItems context
                           (useUserStories opts) (useGherkin opts) (licenseKey opts)))))"

text \<open>
  What \<open>main\<close> does after the argument loop, as a function of the options the loop
  leaves: it is the last branch of \<open>main_request\<close> with the options as a parameter, and
  serves to state what \<open>main\<close> does with them.
\<close>

definition main_after_loop ::
  "(jsstring \<Rightarrow> json option) \<Rightarrow> (json \<Rightarrow> jsstring option) \<Rightarrow> (json \<Rightarrow> jsstring) \<Rightarrow> (jsstring \<Rightarrow> nat)
    \<Rightarrow> filesystem \<Rightarrow> jsstring list option \<Rightarrow> cliOptions \<Rightarrow> exit + (event list \<times> httpRequest)" where
  "main_after_loop parse toStr stringify byteLength fs stdin opts =
     (case collectItems fs stdin opts of
        Inl e \<Rightarrow> Inl e
      | Inr allItems \<Rightarrow>
          if length allItems = 0 then
            Inl ([ConsoleError
                   (js ''Error: No items provided. Pass items as arguments, use --file, or pipe via stdin.\<newline>''),
                  ShowHelp], 1)
          else
            (case resolveContext parse toStr fs opts of
               (context, diagnostics) \<Rightarrow>
                 Inr (diagnostics,
                      callApi_request stringify byteLength allItems context
                        (useUserStories opts) (useGherkin opts) (licenseKey opts))))"

section \<open>The enforcement flow\<close>

text \<open>The comparison \<open>>=\<close> of two numbers: false as soon as one of them is NaN.\<close>

fun js_ge :: "jsnum \<Rightarrow> jsnum \<Rightarrow> bool" where
  "js_ge NaN b = False"
| "js_ge a NaN = False"
| "js_ge PosInf b = True"
| "js_ge a NegInf = True"
| "js_ge (Num x) (Num y) = (x \<ge> y)"
| "js_ge (Num x) PosInf = False"
| "js_ge NegInf b = False"

fun js_lt :: "jsnum \<Rightarrow> jsnum \<Rightarrow> bool" where
  "js_lt NaN b = False"
| "js_lt a NaN = False"
| "js_lt PosInf b = False"
| "js_lt a NegInf = False"
| "js_lt (Num x) (Num y) = (x < y)"
| "js_lt (Num x) PosInf = True"
| "js_lt NegInf b = True"

record enforceOptions =
  issueNumber :: "jsstring option"
  repo :: "jsstring option"
  minScore :: jsnum
  enforceKey :: "jsstring option"
  githubToken :: "jsstring option"

definition initialEnforceOptions :: "jsstring option \<Rightarrow> enforceOptions" where
  "initialEnforceOptions envToken =
     \<lparr>issueNumber = None, repo = None, minScore = Num 80, enforceKey = None,
      githubToken = envToken\<rparr>"

text \<open>
  The argument loop of \<open>runEnforce\<close>; \<open>parseInt\<close> with radix 10 is a built-in of the
  platform and is a parameter.
\<close>

fun parseEnforceArgs :: "(jsstring \<Rightarrow> jsnum) \<Rightarrow> jsstring list \<Rightarrow> enforceOptions \<Rightarrow> enforceOptions" where
  "parseEnforceArgs parseInt [] opts = opts"
| "parseEnforceArgs parseInt (arg # rest) opts =
    (if arg = js ''--issue'' then
       parseEnforceArgs parseInt (tl rest) (opts\<lparr>issueNumber := nextArg rest\<rparr>)
     else if arg = js ''--repo'' then
       parseEnforceArgs parseInt (tl rest) (opts\<lparr>repo := nextArg rest\<rparr>)
     else if arg = js ''--min-score'' then
       parseEnforceArgs parseInt (tl rest)
         (opts\<lparr>minScore :=
            parseInt (case nextArg rest of
                        None \<Rightarrow> js ''80''
                      | Some v \<Rightarrow> if v = [] then js ''80'' else v)\<rparr>)
     else if arg = js ''--key'' \<or> arg = js ''-k'' then
       parseEnforceArgs parseInt (tl rest) (opts\<lparr>enforceKey := nextArg rest\<rparr>)
     else if arg = js ''--github-token'' then
       parseEnforceArgs parseInt (tl rest) (opts\<lparr>githubToken := nextArg rest\<rparr>)
     else parseEnforceArgs parseInt rest opts)"

text \<open>
  The body of the scoring endpoint after \<open>JSON.parse\<close>, typed as the source declares it:
  every field optional, the flat fields beside an optional list of results. The checks are
  the entries of the object in enumeration order.
\<close>

record check =
  pass :: bool
  message :: "jsstring option"

record LintIssue =
  lint_id :: "jsstring option"
  completeness_score :: "jsnum option"
  agent_ready :: "bool option"
  lint_title :: "jsstring option"
  checks :: "(jsstring \<times> check) list option"

record LintApiResponse = LintIssue +
  issues :: "LintIssue list option"

text \<open>
  \<open>lintResult.issues?.[0] ?? lintResult\<close>: the first element when there is one, the
  response itself otherwise.
\<close>

definition issueResult :: "LintApiResponse \<Rightarrow> LintIssue" where
  "issueResult lintResult =
     (case issues lintResult of
        None \<Rightarrow> LintIssue.truncate lintResult
      | Some [] \<Rightarrow> LintIssue.truncate lintResult
      | Some (first # others) \<Rightarrow> first)"

definition scoreOf :: "LintIssue \<Rightarrow> jsnum" where
  "scoreOf r = (case completeness_score r of None \<Rightarrow> Num 0 | Some n \<Rightarrow> n)"

definition agentReadyOf :: "LintIssue \<Rightarrow> bool" where
  "agentReadyOf r = (case agent_ready r of None \<Rightarrow> False | Some b \<Rightarrow> b)"

definition lintIdOf :: "LintIssue \<Rightarrow> jsstring" where
  "lintIdOf r =
     (case lint_id r of None \<Rightarrow> [] | Some i \<Rightarrow> if i \<noteq> [] then js ''#'' @ i else [])"

definition checksOf :: "LintIssue \<Rightarrow> (jsstring \<times> check) list" where
  "checksOf r = (case checks r of None \<Rightarrow> [] | Some cs \<Rightarrow> cs)"

definition showBool :: "bool \<Rightarrow> jsstring" where
  "showBool b = (if b then js ''true'' else js ''false'')"

definition idPart :: "jsstring \<Rightarrow> jsstring" where
  "idPart lintId = (if lintId \<noteq> [] then js '' | '' @ lintId else [])"

definition failing :: "(jsstring \<times> check) list \<Rightarrow> (jsstring \<times> check) list" where
  "failing cs = filter (\<lambda>(k, v). \<not> pass v) cs"

text \<open>One line of the enumeration: a cross (U+2717), the name, then a dash (U+2014) and the message.\<close>

definition failingLine :: "jsstring \<times> check \<Rightarrow> jsstring" where
  "failingLine kv =
     (case kv of (key, val) \<Rightarrow>
        js ''  '' @ [0x2717] @ js '' '' @ key
        @ (case message val of
             None \<Rightarrow> []
           | Some m \<Rightarrow> if m \<noteq> [] then js '' '' @ [0x2014] @ js '' '' @ m else []))"

text \<open>
  The end of \<open>runEnforce\<close>, after both requests succeeded: the lines written to standard
  output and the exit status. The rendering of a number in a template literal is a built-in
  of the platform and is a parameter. U+2705 and U+274C are the two marks, 0x22 the double
  quote.
\<close>

definition enforceReport ::
  "(jsnum \<Rightarrow> jsstring) \<Rightarrow> jsstring \<Rightarrow> jsstring \<Rightarrow> jsstring \<Rightarrow> jsnum \<Rightarrow> LintApiResponse
    \<Rightarrow> jsstring list \<times> nat" where
  "enforceReport showNum issueNo repoName issueTitle threshold lintResult =
     (let result = issueResult lintResult;
          score = scoreOf result;
          agentReady = agentReadyOf result;
          lintId = lintIdOf result;
          cs = checksOf result
      in if js_ge score threshold then
           ([[0x2705] @ js '' Lint passed'' @ idPart lintId @ js '' | Score: '' @ showNum score
               @ js ''/100 | agent_ready: '' @ showBool agentReady,
             js ''Issue #'' @ issueNo @ js '': '' @ [0x22] @ issueTitle @ [0x22],
             js ''Proceeding with implementation.''], 0)
         else
           ([[0x274C] @ js '' Lint failed'' @ idPart lintId @ js '' | Score: '' @ showNum score
               @ js ''/100 | NOT agent_ready'',
             js ''Issue #'' @ issueNo @ js '': '' @ [0x22] @ issueTitle @ [0x22]]
            @ (if length (failing cs) > 0
               then js ''\<newline>Missing:'' # map failingLine (failing cs) else [])
            @ [js ''\<newline>Edit the issue body and re-run: npx speclint enforce --issue '' @ issueNo
                 @ js '' --repo '' @ repoName], 1))"

section \<open>Example inputs\<close>

text \<open>
  A working directory where the first three candidate files hold 300 letters \<open>a\<close>
  each, and the same directory with a fourth candidate.
\<close>

definition threeFullFiles :: filesystem where
  "threeFullFiles p =
     (if p = js ''AGENTS.md'' \<or> p = js ''CLAUDE.md'' \<or> p = js ''CODEX.md''
      then Content (replicate 300 0x61) else Absent)"

definition fourFiles :: filesystem where
  "fourFiles p =
     (if p = js ''GEMINI.md'' then Content (js ''gemini notes'') else threeFullFiles p)"

text \<open>
  Stand-ins for the built-ins of the platform, used where an example needs one: a parser
  that rejects every body, one that accepts only \<open>{}\<close>, a serialiser, the rendering of
  a non-negative whole number, and \<open>parseInt\<close>.
\<close>

definition noParse :: "jsstring \<Rightarrow> json option" where
  "noParse c = None"

definition parseEmptyObject :: "jsstring \<Rightarrow> json option" where
  "parseEmptyObject c = (if c = js ''{}'' then Some (JObj []) else None)"

definition stringifyStub :: "json \<Rightarrow> jsstring" where
  "stringifyStub v = js ''{}''"

definition showWhole :: "jsnum \<Rightarrow> jsstring" where
  "showWhole n =
     (case n of
        Num q \<Rightarrow> showNat (nat \<lfloor>q\<rfloor>)
      | NaN \<Rightarrow> js ''NaN''
      | PosInf \<Rightarrow> js ''Infinity''
      | NegInf \<Rightarrow> js ''-Infinity'')"

definition parseIntStub :: "jsstring \<Rightarrow> jsnum" where
  "parseIntStub s = NaN"

text \<open>
  Two refined items: one with every optional section empty or absent, one with all of them.
\<close>

definition bareItem :: RefinedItem where
  "bareItem =
     \<lparr>title = js ''Fix login'', problemStatement = js ''Users cannot sign in'',
      acceptanceCriteria = Some [], estimate = js ''M'', priority = js ''HIGH'',
      rationale = Some [], tags = None, userStory = None\<rparr>"

definition fullItem :: RefinedItem where
  "fullItem =
     \<lparr>title = js ''Dark mode'', problemStatement = js ''No dark theme'',
      acceptanceCriteria = Some [js ''Toggle exists'', js ''Choice persists''],
      estimate = js ''S'', priority = js ''LOW'', rationale = Some (js ''Requested often''),
      tags = Some [js ''ui'', js ''theme''], userStory = Some (js ''As a user, I want dark mode'')\<rparr>"

text \<open>
  Responses of the scoring endpoint: a list of one result with three checks, a flat object
  beside an empty list, and a flat object with no field at all.
\<close>

definition sampleChecks :: "(jsstring \<times> check) list" where
  "sampleChecks =
     [(js ''has_acceptance_criteria'', \<lparr>pass = False, message = Some (js ''Add criteria'')\<rparr>),
      (js ''has_title'', \<lparr>pass = True, message = None\<rparr>),
      (js ''has_context'', \<lparr>pass = False, message = None\<rparr>)]"

definition wrappedResponse :: "rat \<Rightarrow> LintApiResponse" where
  "wrappedResponse s =
     \<lparr>lint_id = None, completeness_score = None, agent_ready = None, lint_title = None,
      checks = None,
      issues = Some [\<lparr>lint_id = Some (js ''L1''), completeness_score = Some (Num s),
                      agent_ready = Some False, lint_title = None, checks = Some sampleChecks\<rparr>]\<rparr>"

definition emptyIssuesResponse :: LintApiResponse where
  "emptyIssuesResponse =
     \<lparr>lint_id = None, completeness_score = Some (Num 90), agent_ready = Some True,
      lint_title = None, checks = None, issues = Some []\<rparr>"

definition flatResponse :: LintApiResponse where
  "flatResponse =
     \<lparr>lint_id = None, completeness_score = None, agent_ready = None,
      lint_title = None, checks = None, issues = None\<rparr>"

text \<open>
  A string conversion that always throws, and two working directories that hold only
  \<open>backlog.txt\<close>: one with the lines \<open>B\<close> and \<open>C\<close>, one with the same lines
  padded with blanks and an empty line.
\<close>

definition ToStringStub :: "json \<Rightarrow> jsstring option" where
  "ToStringStub v = None"

definition backlogOnly :: filesystem where
  "backlogOnly p = (if p = js ''backlog.txt'' then Content (js ''B\<newline>C'') else Absent)"

definition paddedBacklog :: filesystem where
  "paddedBacklog p =
     (if p = js ''backlog.txt'' then Content (js ''  B \<newline>\<newline> C\<newline>'') else Absent)"

section \<open>Properties of the detector\<close>

lemma detectLoop_exhausted:
  "MAX_CHARS \<le> totalChars st \<Longrightarrow> detectLoop fs srcs st = st"
  by (cases srcs) simp_all

lemma detectLoop_append:
  "detectLoop fs (pre @ post) st = detectLoop fs post (detectLoop fs pre st)"
proof (induction pre arbitrary: st)
  case Nil
  show ?case by simp
next
  case (Cons s pre)
  show ?case
  proof (cases "MAX_CHARS \<le> totalChars st")
    case True
    then show ?thesis by (simp add: detectLoop_exhausted)
  next
    case False
    then show ?thesis
      by (simp add: Cons.IH Let_def split: fileState.split)
  qed
qed

text \<open>The files used are taken from the table in its order, each at most once.\<close>

lemma detectLoop_used_subseq:
  "\<exists>used. usedSources (detectLoop fs srcs st) = usedSources st @ used
      \<and> subseq used (map fileName srcs)"
proof (induction srcs arbitrary: st)
  case Nil
  show ?case by simp
next
  case (Cons s srcs)
  have skip: "\<exists>used. usedSources (detectLoop fs srcs st) = usedSources st @ used
      \<and> subseq used (map fileName (s # srcs))"
    using Cons.IH [of st] by auto
  show ?case
  proof (cases "fs (fileName s)")
    case (Content raw)
    let ?chunk = "take (MAX_CHARS - totalChars st) (trim (extractor s (trim raw)))"
    let ?st = "st\<lparr>collected := collected st @ [?chunk],
                   usedSources := usedSources st @ [fileName s],
                   totalChars := totalChars st + length ?chunk\<rparr>"
    obtain used where "usedSources (detectLoop fs srcs ?st) = usedSources ?st @ used"
      and "subseq used (map fileName srcs)"
      using Cons.IH [of ?st] by blast
    then have "usedSources (detectLoop fs srcs ?st) = usedSources st @ (fileName s # used)
        \<and> subseq (fileName s # used) (map fileName (s # srcs))"
      by simp
    then have push: "\<exists>used. usedSources (detectLoop fs srcs ?st) = usedSources st @ used
        \<and> subseq used (map fileName (s # srcs))"
      by blast
    show ?thesis
      using Content skip push by (simp add: Let_def)
  qed (use skip in simp_all)
qed

text \<open>The running total is the sum of the chunk lengths and stays within the budget.\<close>

lemma detectLoop_budget:
  "totalChars st = sum_list (map length (collected st)) \<Longrightarrow> totalChars st \<le> MAX_CHARS \<Longrightarrow>
   totalChars (detectLoop fs srcs st) = sum_list (map length (collected (detectLoop fs srcs st)))
   \<and> totalChars (detectLoop fs srcs st) \<le> MAX_CHARS"
proof (induction srcs arbitrary: st)
  case Nil
  then show ?case by simp
next
  case (Cons s srcs)
  show ?case
  proof (cases "fs (fileName s)")
    case (Content raw)
    let ?chunk = "take (MAX_CHARS - totalChars st) (trim (extractor s (trim raw)))"
    let ?st = "st\<lparr>collected := collected st @ [?chunk],
                   usedSources := usedSources st @ [fileName s],
                   totalChars := totalChars st + length ?chunk\<rparr>"
    have "totalChars ?st = sum_list (map length (collected ?st))"
      using Cons.prems by simp
    moreover have "totalChars ?st \<le> MAX_CHARS"
      using Cons.prems by simp
    ultimately have step: "totalChars (detectLoop fs srcs ?st)
         = sum_list (map length (collected (detectLoop fs srcs ?st)))
       \<and> totalChars (detectLoop fs srcs ?st) \<le> MAX_CHARS"
      by (rule Cons.IH)
    show ?thesis
      using Content step Cons.IH [OF Cons.prems] Cons.prems
      by (simp add: Let_def)
  qed (use Cons.IH [OF Cons.prems] Cons.prems in simp_all)
qed

lemma detectLoop_lengths:
  "length (collected st) = length (usedSources st) \<Longrightarrow>
   length (collected (detectLoop fs srcs st)) = length (usedSources (detectLoop fs srcs st))"
proof (induction srcs arbitrary: st)
  case Nil
  then show ?case by simp
next
  case (Cons s srcs)
  show ?case
  proof (cases "fs (fileName s)")
    case (Content raw)
    let ?chunk = "take (MAX_CHARS - totalChars st) (trim (extractor s (trim raw)))"
    let ?st = "st\<lparr>collected := collected st @ [?chunk],
                   usedSources := usedSources st @ [fileName s],
                   totalChars := totalChars st + length ?chunk\<rparr>"
    have "length (collected ?st) = length (usedSources ?st)"
      using Cons.prems by simp
    then have step: "length (collected (detectLoop fs srcs ?st))
        = length (usedSources (detectLoop fs srcs ?st))"
      by (rule Cons.IH)
    show ?thesis
      using Content step Cons.IH [OF Cons.prems] Cons.prems
      by (simp add: Let_def)
  qed (use Cons.IH [OF Cons.prems] Cons.prems in simp_all)
qed

lemma length_join:
  "length (join sep xs) = sum_list (map length xs) + length sep * (length xs - 1)"
  by (induction sep xs rule: join.induct) simp_all

lemma distinct_sources: "distinct (map fileName (sources parse toStr))"
  by (simp add: sources_def js_def)

text \<open>
  The separators are not counted in the running total: the joined string holds at most
  \<open>700 + 3 * 9\<close> code units.
\<close>

lemma detectProjectContext_length:
  assumes "fst (detectProjectContext parse toStr fs) = Some combined"
  shows "length combined \<le> 727"
proof -
  let ?st = "detectLoop fs (sources parse toStr) initState"
  have total: "sum_list (map length (collected ?st)) \<le> 700"
    using detectLoop_budget [of initState fs "sources parse toStr"]
    by (simp add: initState_def MAX_CHARS_def)
  obtain used where "usedSources ?st = usedSources initState @ used"
    and "subseq used (map fileName (sources parse toStr))"
    using detectLoop_used_subseq by blast
  then have "length (usedSources ?st) \<le> length (sources parse toStr)"
    using list_emb_length [of "(=)" used "map fileName (sources parse toStr)"]
    by (simp add: initState_def)
  moreover have "length (collected ?st) = length (usedSources ?st)"
    by (rule detectLoop_lengths) (simp add: initState_def)
  ultimately have count: "length (collected ?st) \<le> 10"
    by (simp add: sources_def)
  have "combined = join (js '' | '') (collected ?st)"
    using assms by (simp add: detectProjectContext_def report_def Let_def split: if_splits)
  then have "length combined = sum_list (map length (collected ?st)) + 3 * (length (collected ?st) - 1)"
    by (simp add: length_join js_def)
  with total count show ?thesis by simp
qed

lemma trim_replicate: "\<not> isWhiteSpace c \<Longrightarrow> trim (replicate n c) = replicate n c"
  by (simp add: trim_def)

lemma not_whitespace_a: "\<not> isWhiteSpace 0x61"
  by (simp add: isWhiteSpace_def)

lemma detectLoop_threeFullFiles:
  "detectLoop threeFullFiles (sources parse toStr) initState =
     \<lparr>collected = [replicate 300 0x61, replicate 300 0x61, replicate 100 0x61],
      usedSources = [js ''AGENTS.md'', js ''CLAUDE.md'', js ''CODEX.md''],
      totalChars = 700\<rparr>"
  by (simp add: sources_def threeFullFiles_def initState_def MAX_CHARS_def trim_replicate
      not_whitespace_a js_def Let_def)

text \<open>
  C1. The combined string is documented to hold at most 700 characters, with the chunks in
  the order of the table. The order holds (\<open>detectLoop_used_subseq\<close>) and so does
  the bound on the sum of the chunks (\<open>detectLoop_budget\<close>), but the returned string
  also holds the separators: with \<open>AGENTS.md\<close>, \<open>CLAUDE.md\<close> and
  \<open>CODEX.md\<close> of 300 letters each the chunks have 300, 300 and 100 letters and the
  returned string has 706 code units, as the diagnostic line itself reports.
\<close>

theorem combined_exceeds_budget:
  "fst (detectProjectContext parse toStr threeFullFiles)
     = Some (replicate 300 0x61 @ js '' | '' @ replicate 300 0x61 @ js '' | '' @ replicate 100 0x61)
   \<and> length (replicate 300 (0x61 :: 16 word) @ js '' | '' @ replicate 300 0x61 @ js '' | ''
         @ replicate 100 0x61) = 706
   \<and> MAX_CHARS < length (replicate 300 (0x61 :: 16 word) @ js '' | '' @ replicate 300 0x61
         @ js '' | '' @ replicate 100 0x61)
   \<and> snd (detectProjectContext parse toStr threeFullFiles)
     = [js ''Auto-detected project context from: AGENTS.md, CLAUDE.md, CODEX.md (706 chars)'']"
  by (simp add: detectProjectContext_def detectLoop_threeFullFiles report_def js_def showNat.simps
      MAX_CHARS_def)

text \<open>
  C7. When the running total has reached 700 before a candidate is visited, the loop ends
  there: the final state is the one reached before that candidate, the result and the
  diagnostic line are computed from it, and the candidate is not among the used sources.
\<close>

theorem exhausted_budget_skips_file:
  assumes "sources parse toStr = pre @ s # post"
    and "MAX_CHARS \<le> totalChars (detectLoop fs pre initState)"
  shows "detectLoop fs (sources parse toStr) initState = detectLoop fs pre initState
    \<and> detectProjectContext parse toStr fs = report (detectLoop fs pre initState)
    \<and> fileName s \<notin> set (usedSources (detectLoop fs pre initState))"
proof -
  have same: "detectLoop fs (sources parse toStr) initState = detectLoop fs pre initState"
    using assms by (simp add: detectLoop_append detectLoop_exhausted)
  obtain used where used: "usedSources (detectLoop fs pre initState) = usedSources initState @ used"
    "subseq used (map fileName pre)"
    using detectLoop_used_subseq by blast
  have "distinct (map fileName (pre @ s # post))"
    using distinct_sources [of parse toStr] assms(1) by simp
  then have "fileName s \<notin> set (map fileName pre)" by auto
  moreover have "set used \<subseteq> set (map fileName pre)"
    using used(2) by (auto elim: list_emb_set)
  ultimately have "fileName s \<notin> set (usedSources (detectLoop fs pre initState))"
    using used(1) by (auto simp: initState_def)
  with same show ?thesis by (simp add: detectProjectContext_def)
qed

lemma detectLoop_fourFiles_prefix:
  "detectLoop fourFiles
     [\<lparr>fileName = js ''AGENTS.md'', extractor = take 300\<rparr>,
      \<lparr>fileName = js ''CLAUDE.md'', extractor = take 300\<rparr>,
      \<lparr>fileName = js ''CODEX.md'', extractor = take 300\<rparr>] initState =
     \<lparr>collected = [replicate 300 0x61, replicate 300 0x61, replicate 100 0x61],
      usedSources = [js ''AGENTS.md'', js ''CLAUDE.md'', js ''CODEX.md''],
      totalChars = 700\<rparr>"
  by (simp add: fourFiles_def threeFullFiles_def initState_def MAX_CHARS_def trim_replicate
      not_whitespace_a js_def Let_def)

theorem exhausted_budget_skips_file_witness:
  "sources (\<lambda>c. None) (\<lambda>v. None) =
     [\<lparr>fileName = js ''AGENTS.md'', extractor = take 300\<rparr>,
      \<lparr>fileName = js ''CLAUDE.md'', extractor = take 300\<rparr>,
      \<lparr>fileName = js ''CODEX.md'', extractor = take 300\<rparr>]
     @ \<lparr>fileName = js ''GEMINI.md'', extractor = take 300\<rparr>
     # drop 4 (sources (\<lambda>c. None) (\<lambda>v. None))
   \<and> fourFiles (js ''GEMINI.md'') = Content (js ''gemini notes'')
   \<and> MAX_CHARS \<le> totalChars (detectLoop fourFiles
         [\<lparr>fileName = js ''AGENTS.md'', extractor = take 300\<rparr>,
          \<lparr>fileName = js ''CLAUDE.md'', extractor = take 300\<rparr>,
          \<lparr>fileName = js ''CODEX.md'', extractor = take 300\<rparr>] initState)
   \<and> usedSources (detectLoop fourFiles (sources (\<lambda>c. None) (\<lambda>v. None)) initState)
       = [js ''AGENTS.md'', js ''CLAUDE.md'', js ''CODEX.md'']
   \<and> js ''GEMINI.md'' \<notin> set (usedSources
         (detectLoop fourFiles (sources (\<lambda>c. None) (\<lambda>v. None)) initState))"
proof -
  let ?pre = "[\<lparr>fileName = js ''AGENTS.md'', extractor = take 300\<rparr>,
      \<lparr>fileName = js ''CLAUDE.md'', extractor = take 300\<rparr>,
      \<lparr>fileName = js ''CODEX.md'', extractor = take 300\<rparr>]"
  let ?s = "\<lparr>fileName = js ''GEMINI.md'', extractor = take 300\<rparr>"
  have split: "sources (\<lambda>c. None) (\<lambda>v. None) = ?pre @ ?s # drop 4 (sources (\<lambda>c. None) (\<lambda>v. None))"
    by (simp add: sources_def)
  have full: "MAX_CHARS \<le> totalChars (detectLoop fourFiles ?pre initState)"
    by (subst detectLoop_fourFiles_prefix) (simp add: MAX_CHARS_def)
  have present: "fourFiles (js ''GEMINI.md'') = Content (js ''gemini notes'')"
    by (simp add: fourFiles_def)
  have same: "detectLoop fourFiles (sources (\<lambda>c. None) (\<lambda>v. None)) initState
      = detectLoop fourFiles ?pre initState"
    using exhausted_budget_skips_file [OF split full] by blast
  have used: "usedSources (detectLoop fourFiles (sources (\<lambda>c. None) (\<lambda>v. None)) initState)
      = [js ''AGENTS.md'', js ''CLAUDE.md'', js ''CODEX.md'']"
    unfolding same detectLoop_fourFiles_prefix by simp
  have "fileName ?s \<notin> set (usedSources (detectLoop fourFiles ?pre initState))"
    using exhausted_budget_skips_file [OF split full] by blast
  then have unused: "js ''GEMINI.md'' \<notin> set (usedSources
         (detectLoop fourFiles (sources (\<lambda>c. None) (\<lambda>v. None)) initState))"
    unfolding same by simp
  from split present full used unused show ?thesis
    by (intro conjI)
qed

section \<open>Properties of the refine client\<close>

text \<open>
  C3. The response mapping, case by case and in the order of the checks: 429 and 402 reject
  with their own messages; a missing status, status 0 and every other status from 400 on
  reject with the generic message, which holds the status and the whole body; a non-zero
  status below 400 rejects with the response-format message and the first 200 code units of
  the body when the body does not parse, and resolves with the parsed body otherwise. The
  handler is a function of the response: one outcome, no second request.
\<close>

theorem callApi_response_mapping:
  "(statusCode res = Some 429 \<longrightarrow>
      callApi_response parse res
        = Inl (js ''Rate limit hit. Upgrade at refinebacklog.com/pricing or pass --key''))
   \<and> (statusCode res = Some 402 \<longrightarrow>
      callApi_response parse res
        = Inl (js ''Too many items for free tier. Upgrade at refinebacklog.com/pricing''))
   \<and> (statusCode res = None \<or> statusCode res = Some 0
        \<or> (\<exists>n. statusCode res = Some n \<and> n \<ge> 400 \<and> n \<noteq> 429 \<and> n \<noteq> 402) \<longrightarrow>
      callApi_response parse res
        = Inl (js ''API error '' @ showStatus (statusCode res) @ js '': '' @ data res))
   \<and> (\<forall>n. statusCode res = Some n \<and> 0 < n \<and> n < 400 \<and> parse (data res) = None \<longrightarrow>
      callApi_response parse res = Inl (js ''Invalid JSON response: '' @ take 200 (data res)))
   \<and> (\<forall>n v. statusCode res = Some n \<and> 0 < n \<and> n < 400 \<and> parse (data res) = Some v \<longrightarrow>
      callApi_response parse res = Inr v)"
  by (auto simp: callApi_response_def)

text \<open>
  Status 0 is below 400 and is tested as a missing status: with a body that does not parse
  the handler rejects with the generic message, not with the response-format one.
\<close>

theorem status_zero_counterexample:
  "statusCode \<lparr>statusCode = Some 0, data = js ''oops''\<rparr> = Some 0
   \<and> (0 :: nat) < 400
   \<and> noParse (data \<lparr>statusCode = Some 0, data = js ''oops''\<rparr>) = None
   \<and> callApi_response noParse \<lparr>statusCode = Some 0, data = js ''oops''\<rparr>
       = Inl (js ''API error 0: oops'')
   \<and> callApi_response noParse \<lparr>statusCode = Some 0, data = js ''oops''\<rparr>
       \<noteq> Inl (js ''Invalid JSON response: '' @ take 200 (js ''oops''))"
  by (simp add: callApi_response_def noParse_def showStatus_def showNat.simps js_def)

theorem callApi_response_mapping_witness:
  "callApi_response noParse \<lparr>statusCode = Some 429, data = js ''slow down''\<rparr>
     = Inl (js ''Rate limit hit. Upgrade at refinebacklog.com/pricing or pass --key'')
   \<and> callApi_response noParse \<lparr>statusCode = Some 402, data = js ''pay''\<rparr>
     = Inl (js ''Too many items for free tier. Upgrade at refinebacklog.com/pricing'')
   \<and> callApi_response noParse \<lparr>statusCode = Some 500, data = js ''boom''\<rparr>
     = Inl (js ''API error 500: boom'')
   \<and> callApi_response noParse \<lparr>statusCode = None, data = js ''boom''\<rparr>
     = Inl (js ''API error undefined: boom'')
   \<and> callApi_response parseEmptyObject \<lparr>statusCode = Some 200, data = js ''<html>''\<rparr>
     = Inl (js ''Invalid JSON response: <html>'')
   \<and> callApi_response parseEmptyObject \<lparr>statusCode = Some 200, data = js ''{}''\<rparr>
     = Inr (JObj [])"
proof -
  have a: "callApi_response noParse \<lparr>statusCode = Some 429, data = js ''slow down''\<rparr>
     = Inl (js ''Rate limit hit. Upgrade at refinebacklog.com/pricing or pass --key'')"
    using callApi_response_mapping [of "\<lparr>statusCode = Some 429, data = js ''slow down''\<rparr>" noParse]
    by simp
  have b: "callApi_response noParse \<lparr>statusCode = Some 402, data = js ''pay''\<rparr>
     = Inl (js ''Too many items for free tier. Upgrade at refinebacklog.com/pricing'')"
    using callApi_response_mapping [of "\<lparr>statusCode = Some 402, data = js ''pay''\<rparr>" noParse]
    by simp
  have c: "callApi_response noParse \<lparr>statusCode = Some 500, data = js ''boom''\<rparr>
     = Inl (js ''API error 500: boom'')"
    using callApi_response_mapping [of "\<lparr>statusCode = Some 500, data = js ''boom''\<rparr>" noParse]
    by (simp add: showStatus_def showNat.simps js_def)
  have d: "callApi_response noParse \<lparr>statusCode = None, data = js ''boom''\<rparr>
     = Inl (js ''API error undefined: boom'')"
    using callApi_response_mapping [of "\<lparr>statusCode = None, data = js ''boom''\<rparr>" noParse]
    by (simp add: showStatus_def js_def)
  have e: "callApi_response parseEmptyObject \<lparr>statusCode = Some 200, data = js ''<html>''\<rparr>
     = Inl (js ''Invalid JSON response: <html>'')"
    using callApi_response_mapping [of "\<lparr>statusCode = Some 200, data = js ''<html>''\<rparr>" parseEmptyObject]
    by (simp add: parseEmptyObject_def js_def)
  have f: "callApi_response parseEmptyObject \<lparr>statusCode = Some 200, data = js ''{}''\<rparr>
     = Inr (JObj [])"
    using callApi_response_mapping [of "\<lparr>statusCode = Some 200, data = js ''{}''\<rparr>" parseEmptyObject]
    by (simp add: parseEmptyObject_def)
  from a b c d e f show ?thesis by (intro conjI)
qed

lemma key_names_distinct:
  "js ''items'' \<noteq> js ''context''" "js ''items'' \<noteq> js ''useUserStories''"
  "js ''items'' \<noteq> js ''useGherkin''" "js ''context'' \<noteq> js ''useUserStories''"
  "js ''context'' \<noteq> js ''useGherkin''" "js ''useUserStories'' \<noteq> js ''useGherkin''"
  "js ''context'' \<noteq> js ''items''" "js ''useUserStories'' \<noteq> js ''items''"
  "js ''useGherkin'' \<noteq> js ''items''" "js ''useUserStories'' \<noteq> js ''context''"
  "js ''useGherkin'' \<noteq> js ''context''" "js ''useGherkin'' \<noteq> js ''useUserStories''"
  by (simp_all add: js_def)

lemma header_names_distinct:
  "js ''x-license-key'' \<noteq> js ''Content-Type''" "js ''x-license-key'' \<noteq> js ''Content-Length''"
  "js ''x-license-key'' \<noteq> js ''User-Agent''"
  by (simp_all add: js_def)

text \<open>
  C8. The object serialised as the request body holds \<open>items\<close>; it holds
  \<open>context\<close> exactly when a non-empty context is given, \<open>useUserStories\<close> and
  \<open>useGherkin\<close> exactly when the flag is true, each with its value; it holds no other
  key and no \<open>null\<close> or \<open>false\<close> value. The \<open>x-license-key\<close> header is
  among the headers exactly when a non-empty key is given, and then carries it.
\<close>

theorem request_omits_absent_options:
  "\<exists>fields. requestObject its context stories gherkin = JObj fields
     \<and> map_of fields (js ''items'') = Some (JArr (map JStr its))
     \<and> (js ''context'' \<in> fst ` set fields \<longleftrightarrow> (\<exists>c. context = Some c \<and> c \<noteq> []))
     \<and> (\<forall>c. context = Some c \<and> c \<noteq> [] \<longrightarrow> map_of fields (js ''context'') = Some (JStr c))
     \<and> (js ''useUserStories'' \<in> fst ` set fields \<longleftrightarrow> stories)
     \<and> (stories \<longrightarrow> map_of fields (js ''useUserStories'') = Some (JBool True))
     \<and> (js ''useGherkin'' \<in> fst ` set fields \<longleftrightarrow> gherkin)
     \<and> (gherkin \<longrightarrow> map_of fields (js ''useGherkin'') = Some (JBool True))
     \<and> fst ` set fields
         \<subseteq> {js ''items'', js ''context'', js ''useUserStories'', js ''useGherkin''}
     \<and> (\<forall>kv \<in> set fields. snd kv \<noteq> JNull \<and> snd kv \<noteq> JBool False)
     \<and> reqBody (callApi_request stringify byteLength its context stories gherkin
           key) = stringify (JObj fields)
     \<and> (js ''x-license-key'' \<in> fst ` set (reqHeaders (callApi_request stringify byteLength its
           context stories gherkin key))
          \<longleftrightarrow> (\<exists>k. key = Some k \<and> k \<noteq> []))
     \<and> (\<forall>k. key = Some k \<and> k \<noteq> [] \<longrightarrow>
           map_of (reqHeaders (callApi_request stringify byteLength its context stories
             gherkin key)) (js ''x-license-key'') = Some k)"
proof -
  define fields where "fields =
     [(js ''items'', JArr (map JStr its))]
     @ (case context of None \<Rightarrow> [] | Some c \<Rightarrow> if c \<noteq> [] then [(js ''context'', JStr c)] else [])
     @ (if stories then [(js ''useUserStories'', JBool True)] else [])
     @ (if gherkin then [(js ''useGherkin'', JBool True)] else [])"
  have obj: "requestObject its context stories gherkin = JObj fields"
    by (simp add: requestObject_def fields_def)
  have body: "map_of fields (js ''items'') = Some (JArr (map JStr its))"
    "js ''context'' \<in> fst ` set fields \<longleftrightarrow> (\<exists>c. context = Some c \<and> c \<noteq> [])"
    "\<forall>c. context = Some c \<and> c \<noteq> [] \<longrightarrow> map_of fields (js ''context'') = Some (JStr c)"
    "js ''useUserStories'' \<in> fst ` set fields \<longleftrightarrow> stories"
    "stories \<longrightarrow> map_of fields (js ''useUserStories'') = Some (JBool True)"
    "js ''useGherkin'' \<in> fst ` set fields \<longleftrightarrow> gherkin"
    "gherkin \<longrightarrow> map_of fields (js ''useGherkin'') = Some (JBool True)"
    "fst ` set fields \<subseteq> {js ''items'', js ''context'', js ''useUserStories'', js ''useGherkin''}"
    "\<forall>kv \<in> set fields. snd kv \<noteq> JNull \<and> snd kv \<noteq> JBool False"
    by (auto simp: fields_def key_names_distinct split: option.splits)
  have sent: "reqBody (callApi_request stringify byteLength its context stories gherkin
           key) = stringify (JObj fields)"
    by (simp add: callApi_request_def Let_def obj)
  have hdr: "reqHeaders (callApi_request stringify byteLength its context stories
      gherkin key) = requestHeaders byteLength (stringify (JObj fields)) key"
    by (simp add: callApi_request_def Let_def obj)
  have license: "js ''x-license-key'' \<in> fst ` set (requestHeaders byteLength b key)
          \<longleftrightarrow> (\<exists>k. key = Some k \<and> k \<noteq> [])"
    "\<forall>k. key = Some k \<and> k \<noteq> [] \<longrightarrow>
        map_of (requestHeaders byteLength b key) (js ''x-license-key'') = Some k" for b
    by (auto simp: requestHeaders_def header_names_distinct split: option.splits)
  show ?thesis
    unfolding hdr
    by (rule exI [of _ fields]) (intro conjI obj body sent license)
qed

theorem request_omits_absent_options_witness:
  "(\<exists>fields. requestObject [js ''Fix login''] (Some (js ''B2B'')) True True = JObj fields
      \<and> map_of fields (js ''context'') = Some (JStr (js ''B2B''))
      \<and> map_of fields (js ''useUserStories'') = Some (JBool True)
      \<and> map_of fields (js ''useGherkin'') = Some (JBool True))
   \<and> map_of (reqHeaders (callApi_request stringifyStub length [js ''Fix login'']
         (Some (js ''B2B'')) True True (Some (js ''k1'')))) (js ''x-license-key'') = Some (js ''k1'')
   \<and> (\<exists>fields. requestObject [js ''Fix login''] (Some []) False False = JObj fields
      \<and> js ''context'' \<notin> fst ` set fields
      \<and> js ''useUserStories'' \<notin> fst ` set fields
      \<and> js ''useGherkin'' \<notin> fst ` set fields)
   \<and> js ''x-license-key'' \<notin> fst ` set (reqHeaders (callApi_request stringifyStub length
         [js ''Fix login''] (Some []) False False None))"
proof -
  have nonempty: "js ''B2B'' \<noteq> []" "js ''k1'' \<noteq> []"
    by (simp_all add: js_def)
  have present: "(\<exists>fields. requestObject [js ''Fix login''] (Some (js ''B2B'')) True True = JObj fields
      \<and> map_of fields (js ''context'') = Some (JStr (js ''B2B''))
      \<and> map_of fields (js ''useUserStories'') = Some (JBool True)
      \<and> map_of fields (js ''useGherkin'') = Some (JBool True))
   \<and> map_of (reqHeaders (callApi_request stringifyStub length [js ''Fix login'']
         (Some (js ''B2B'')) True True (Some (js ''k1'')))) (js ''x-license-key'') = Some (js ''k1'')"
    using request_omits_absent_options [of "[js ''Fix login'']" "Some (js ''B2B'')" True True
        stringifyStub length "Some (js ''k1'')"] nonempty
    by auto
  have absent: "(\<exists>fields. requestObject [js ''Fix login''] (Some []) False False = JObj fields
      \<and> js ''context'' \<notin> fst ` set fields
      \<and> js ''useUserStories'' \<notin> fst ` set fields
      \<and> js ''useGherkin'' \<notin> fst ` set fields)
   \<and> js ''x-license-key'' \<notin> fst ` set (reqHeaders (callApi_request stringifyStub length
         [js ''Fix login''] (Some []) False False None))"
    using request_omits_absent_options [of "[js ''Fix login'']" "Some []" False False
        stringifyStub length None]
    by auto
  from present absent show ?thesis by (intro conjI) blast+
qed

section \<open>Properties of the markdown formatter\<close>

text \<open>
  C6. The formatter is a function of the item list alone. An absent or empty user story,
  rationale, list of acceptance criteria or list of tags contributes no line; an item is its
  heading, problem and estimate lines with the lines of the sections that are there, so that
  an item with all four empty is exactly its three mandatory lines. Consecutive items are
  joined by a horizontal rule between blank lines.
\<close>

theorem formatMarkdown_sections:
  "(its = its' \<longrightarrow> formatMarkdown its = formatMarkdown its')
   \<and> (userStory item = None \<or> userStory item = Some [] \<longrightarrow> userStoryLines item = [])
   \<and> (rationale item = None \<or> rationale item = Some [] \<longrightarrow> rationaleLines item = [])
   \<and> (acceptanceCriteria item = None \<or> acceptanceCriteria item = Some [] \<longrightarrow>
        acceptanceCriteriaLines item = [])
   \<and> (tags item = None \<or> tags item = Some [] \<longrightarrow> tagsLines item = [])
   \<and> formatItem item = join (js ''\<newline>'')
        ([js ''## '' @ title item] @ userStoryLines item
         @ [js ''\<newline>**Problem:** '' @ problemStatement item,
            js ''\<newline>**Estimate:** '' @ estimate item @ js '' | **Priority:** '' @ priority item]
         @ rationaleLines item @ acceptanceCriteriaLines item @ tagsLines item)
   \<and> ((userStory item = None \<or> userStory item = Some [])
        \<and> (rationale item = None \<or> rationale item = Some [])
        \<and> (acceptanceCriteria item = None \<or> acceptanceCriteria item = Some [])
        \<and> (tags item = None \<or> tags item = Some []) \<longrightarrow>
        formatItem item =
          js ''## '' @ title item @ js ''\<newline>\<newline>**Problem:** '' @ problemStatement item
          @ js ''\<newline>\<newline>**Estimate:** '' @ estimate item @ js '' | **Priority:** ''
          @ priority item)
   \<and> formatMarkdown [] = []
   \<and> formatMarkdown [item] = formatItem item
   \<and> formatMarkdown (item # item' # rest)
       = formatItem item @ js ''\<newline>\<newline>---\<newline>\<newline>'' @ formatMarkdown (item' # rest)"
proof -
  have us: "userStory item = None \<or> userStory item = Some [] \<longrightarrow> userStoryLines item = []"
    by (auto simp: userStoryLines_def)
  have ra: "rationale item = None \<or> rationale item = Some [] \<longrightarrow> rationaleLines item = []"
    by (auto simp: rationaleLines_def)
  have ac: "acceptanceCriteria item = None \<or> acceptanceCriteria item = Some [] \<longrightarrow>
        acceptanceCriteriaLines item = []"
    by (auto simp: acceptanceCriteriaLines_def)
  have ta: "tags item = None \<or> tags item = Some [] \<longrightarrow> tagsLines item = []"
    by (auto simp: tagsLines_def)
  have whole: "formatItem item = join (js ''\<newline>'')
        ([js ''## '' @ title item] @ userStoryLines item
         @ [js ''\<newline>**Problem:** '' @ problemStatement item,
            js ''\<newline>**Estimate:** '' @ estimate item @ js '' | **Priority:** '' @ priority item]
         @ rationaleLines item @ acceptanceCriteriaLines item @ tagsLines item)"
    by (simp add: formatItem_def itemLines_def)
  have bare: "(userStory item = None \<or> userStory item = Some [])
        \<and> (rationale item = None \<or> rationale item = Some [])
        \<and> (acceptanceCriteria item = None \<or> acceptanceCriteria item = Some [])
        \<and> (tags item = None \<or> tags item = Some []) \<longrightarrow>
        formatItem item =
          js ''## '' @ title item @ js ''\<newline>\<newline>**Problem:** '' @ problemStatement item
          @ js ''\<newline>\<newline>**Estimate:** '' @ estimate item @ js '' | **Priority:** ''
          @ priority item"
  proof
    assume empty: "(userStory item = None \<or> userStory item = Some [])
        \<and> (rationale item = None \<or> rationale item = Some [])
        \<and> (acceptanceCriteria item = None \<or> acceptanceCriteria item = Some [])
        \<and> (tags item = None \<or> tags item = Some [])"
    then have "userStoryLines item = []" "rationaleLines item = []"
      "acceptanceCriteriaLines item = []" "tagsLines item = []"
      using us ra ac ta by blast+
    then show "formatItem item =
          js ''## '' @ title item @ js ''\<newline>\<newline>**Problem:** '' @ problemStatement item
          @ js ''\<newline>\<newline>**Estimate:** '' @ estimate item @ js '' | **Priority:** ''
          @ priority item"
      unfolding whole by (simp add: js_def)
  qed
  have joined: "formatMarkdown [] = []" "formatMarkdown [item] = formatItem item"
    "formatMarkdown (item # item' # rest)
       = formatItem item @ js ''\<newline>\<newline>---\<newline>\<newline>'' @ formatMarkdown (item' # rest)"
    by (simp_all add: formatMarkdown_def separator_def)
  have pure: "its = its' \<longrightarrow> formatMarkdown its = formatMarkdown its'"
    by simp
  show ?thesis
    by (intro conjI pure us ra ac ta whole bare joined)
qed

theorem formatMarkdown_sections_witness:
  "userStory bareItem = None \<and> rationale bareItem = Some [] \<and> acceptanceCriteria bareItem = Some []
   \<and> tags bareItem = None
   \<and> formatItem bareItem
       = js ''## Fix login\<newline>\<newline>**Problem:** Users cannot sign in\<newline>\<newline>**Estimate:** M | **Priority:** HIGH''
   \<and> formatMarkdown [bareItem, fullItem]
       = js ''## Fix login\<newline>\<newline>**Problem:** Users cannot sign in\<newline>\<newline>**Estimate:** M | **Priority:** HIGH\<newline>\<newline>---\<newline>\<newline>## Dark mode\<newline>\<newline>> As a user, I want dark mode\<newline>\<newline>**Problem:** No dark theme\<newline>\<newline>**Estimate:** S | **Priority:** LOW\<newline>**Rationale:** Requested often\<newline>\<newline>**Acceptance Criteria:**\<newline>- Toggle exists\<newline>- Choice persists\<newline>\<newline>**Tags:** ui, theme''"
proof -
  have fields: "userStory bareItem = None" "rationale bareItem = Some []"
    "acceptanceCriteria bareItem = Some []" "tags bareItem = None"
    by (simp_all add: bareItem_def)
  have bare: "formatItem bareItem
       = js ''## Fix login\<newline>\<newline>**Problem:** Users cannot sign in\<newline>\<newline>**Estimate:** M | **Priority:** HIGH''"
    using formatMarkdown_sections [of "[bareItem, fullItem]" "[bareItem, fullItem]" bareItem
        fullItem "[]"] fields
    by (simp add: bareItem_def js_def)
  have full: "formatItem fullItem
       = js ''## Dark mode\<newline>\<newline>> As a user, I want dark mode\<newline>\<newline>**Problem:** No dark theme\<newline>\<newline>**Estimate:** S | **Priority:** LOW\<newline>**Rationale:** Requested often\<newline>\<newline>**Acceptance Criteria:**\<newline>- Toggle exists\<newline>- Choice persists\<newline>\<newline>**Tags:** ui, theme''"
    by (simp add: formatItem_def itemLines_def userStoryLines_def rationaleLines_def
        acceptanceCriteriaLines_def tagsLines_def fullItem_def js_def)
  have "formatMarkdown [bareItem, fullItem]
      = formatItem bareItem @ js ''\<newline>\<newline>---\<newline>\<newline>'' @ formatItem fullItem"
    using formatMarkdown_sections [of "[bareItem, fullItem]" "[bareItem, fullItem]" bareItem
        fullItem "[]"]
      formatMarkdown_sections [of "[]" "[]" fullItem fullItem "[]"]
    by simp
  then have both: "formatMarkdown [bareItem, fullItem]
       = js ''## Fix login\<newline>\<newline>**Problem:** Users cannot sign in\<newline>\<newline>**Estimate:** M | **Priority:** HIGH\<newline>\<newline>---\<newline>\<newline>## Dark mode\<newline>\<newline>> As a user, I want dark mode\<newline>\<newline>**Problem:** No dark theme\<newline>\<newline>**Estimate:** S | **Priority:** LOW\<newline>**Rationale:** Requested often\<newline>\<newline>**Acceptance Criteria:**\<newline>- Toggle exists\<newline>- Choice persists\<newline>\<newline>**Tags:** ui, theme''"
    unfolding bare full by (simp add: js_def)
  from fields bare both show ?thesis by (intro conjI)
qed

section \<open>Properties of the enforcement flow\<close>

lemma js_lt_not_ge: "js_lt a b \<Longrightarrow> \<not> js_ge a b"
  by (cases a; cases b) auto

lemma js_ge_refl: "a \<noteq> NaN \<Longrightarrow> js_ge a a"
  by (cases a) auto

lemma in_set_tl: "x \<in> set (tl xs) \<Longrightarrow> x \<in> set xs"
  by (cases xs) auto

lemma default_minScore:
  "js ''--min-score'' \<notin> set args \<Longrightarrow>
   minScore (parseEnforceArgs parseInt args opts) = minScore opts"
proof (induction parseInt args opts rule: parseEnforceArgs.induct)
  case (1 parseInt opts)
  show ?case by simp
next
  case (2 parseInt arg rest opts)
  have "js ''--min-score'' \<notin> set rest" "js ''--min-score'' \<notin> set (tl rest)"
    using 2(7) by (auto dest: in_set_tl)
  moreover have "arg \<noteq> js ''--min-score''"
    using 2(7) by auto
  ultimately show ?case
    using 2(1,2,4,5,6) by simp
qed

text \<open>
  C2. When the score is at least the threshold the flow prints the success summary and
  exits with 0. Otherwise, and so whenever the score is strictly below the threshold, it
  prints the failure summary, then the checks whose pass flag is false, in their order,
  each with its message when it has one, then the remediation line, and exits with 1. A
  score equal to the threshold succeeds, and the threshold is 80 when \<open>--min-score\<close>
  is not among the arguments.
\<close>

theorem enforce_threshold:
  "(js_ge (scoreOf (issueResult r)) thr \<longrightarrow>
      enforceReport showNum no rp ttl thr r =
        ([[0x2705] @ js '' Lint passed'' @ idPart (lintIdOf (issueResult r)) @ js '' | Score: ''
            @ showNum (scoreOf (issueResult r)) @ js ''/100 | agent_ready: ''
            @ showBool (agentReadyOf (issueResult r)),
          js ''Issue #'' @ no @ js '': '' @ [0x22] @ ttl @ [0x22],
          js ''Proceeding with implementation.''], 0))
   \<and> (\<not> js_ge (scoreOf (issueResult r)) thr \<longrightarrow>
      enforceReport showNum no rp ttl thr r =
        ([[0x274C] @ js '' Lint failed'' @ idPart (lintIdOf (issueResult r)) @ js '' | Score: ''
            @ showNum (scoreOf (issueResult r)) @ js ''/100 | NOT agent_ready'',
          js ''Issue #'' @ no @ js '': '' @ [0x22] @ ttl @ [0x22]]
         @ (if filter (\<lambda>kv. \<not> pass (snd kv)) (checksOf (issueResult r)) = [] then []
            else js ''\<newline>Missing:''
                 # map failingLine (filter (\<lambda>kv. \<not> pass (snd kv)) (checksOf (issueResult r))))
         @ [js ''\<newline>Edit the issue body and re-run: npx speclint enforce --issue '' @ no
              @ js '' --repo '' @ rp], 1))
   \<and> (js_lt (scoreOf (issueResult r)) thr \<longrightarrow> \<not> js_ge (scoreOf (issueResult r)) thr)
   \<and> (scoreOf (issueResult r) = thr \<and> thr \<noteq> NaN \<longrightarrow> js_ge (scoreOf (issueResult r)) thr)
   \<and> (js ''--min-score'' \<notin> set args \<longrightarrow>
        minScore (parseEnforceArgs parseInt args (initialEnforceOptions tok)) = Num 80)
   \<and> (message c = None \<or> message c = Some [] \<longrightarrow>
        failingLine (k, c) = js ''  '' @ [0x2717] @ js '' '' @ k)
   \<and> (\<forall>m. message c = Some m \<and> m \<noteq> [] \<longrightarrow>
        failingLine (k, c) = js ''  '' @ [0x2717] @ js '' '' @ k @ js '' '' @ [0x2014] @ js '' '' @ m)"
proof -
  have same_filter: "failing cs = filter (\<lambda>kv. \<not> pass (snd kv)) cs" for cs
    by (simp add: failing_def case_prod_unfold)
  have ok: "js_ge (scoreOf (issueResult r)) thr \<longrightarrow>
      enforceReport showNum no rp ttl thr r =
        ([[0x2705] @ js '' Lint passed'' @ idPart (lintIdOf (issueResult r)) @ js '' | Score: ''
            @ showNum (scoreOf (issueResult r)) @ js ''/100 | agent_ready: ''
            @ showBool (agentReadyOf (issueResult r)),
          js ''Issue #'' @ no @ js '': '' @ [0x22] @ ttl @ [0x22],
          js ''Proceeding with implementation.''], 0)"
    by (simp add: enforceReport_def Let_def)
  have ko: "\<not> js_ge (scoreOf (issueResult r)) thr \<longrightarrow>
      enforceReport showNum no rp ttl thr r =
        ([[0x274C] @ js '' Lint failed'' @ idPart (lintIdOf (issueResult r)) @ js '' | Score: ''
            @ showNum (scoreOf (issueResult r)) @ js ''/100 | NOT agent_ready'',
          js ''Issue #'' @ no @ js '': '' @ [0x22] @ ttl @ [0x22]]
         @ (if filter (\<lambda>kv. \<not> pass (snd kv)) (checksOf (issueResult r)) = [] then []
            else js ''\<newline>Missing:''
                 # map failingLine (filter (\<lambda>kv. \<not> pass (snd kv)) (checksOf (issueResult r))))
         @ [js ''\<newline>Edit the issue body and re-run: npx speclint enforce --issue '' @ no
              @ js '' --repo '' @ rp], 1)"
    by (simp add: enforceReport_def Let_def same_filter)
  have below: "js_lt (scoreOf (issueResult r)) thr \<longrightarrow> \<not> js_ge (scoreOf (issueResult r)) thr"
    by (simp add: js_lt_not_ge)
  have equal: "scoreOf (issueResult r) = thr \<and> thr \<noteq> NaN \<longrightarrow> js_ge (scoreOf (issueResult r)) thr"
    by (auto simp: js_ge_refl)
  have dflt: "js ''--min-score'' \<notin> set args \<longrightarrow>
        minScore (parseEnforceArgs parseInt args (initialEnforceOptions tok)) = Num 80"
    by (simp add: default_minScore initialEnforceOptions_def)
  have line1: "message c = None \<or> message c = Some [] \<longrightarrow>
        failingLine (k, c) = js ''  '' @ [0x2717] @ js '' '' @ k"
    by (auto simp: failingLine_def)
  have line2: "\<forall>m. message c = Some m \<and> m \<noteq> [] \<longrightarrow>
        failingLine (k, c) = js ''  '' @ [0x2717] @ js '' '' @ k @ js '' '' @ [0x2014] @ js '' '' @ m"
    by (auto simp: failingLine_def)
  show ?thesis
    by (intro conjI ok ko below equal dflt line1 line2)
qed

theorem enforce_threshold_witness:
  "scoreOf (issueResult (wrappedResponse 80)) = Num 80
   \<and> enforceReport showWhole (js ''42'') (js ''acme/backend'') (js ''Fix login'') (Num 80)
        (wrappedResponse 80)
      = ([[0x2705] @ js '' Lint passed | #L1 | Score: 80/100 | agent_ready: false'',
          js ''Issue #42: '' @ [0x22] @ js ''Fix login'' @ [0x22],
          js ''Proceeding with implementation.''], 0)
   \<and> js_lt (scoreOf (issueResult (wrappedResponse 79))) (Num 80)
   \<and> enforceReport showWhole (js ''42'') (js ''acme/backend'') (js ''Fix login'') (Num 80)
        (wrappedResponse 79)
      = ([[0x274C] @ js '' Lint failed | #L1 | Score: 79/100 | NOT agent_ready'',
          js ''Issue #42: '' @ [0x22] @ js ''Fix login'' @ [0x22],
          js ''\<newline>Missing:'',
          js ''  '' @ [0x2717] @ js '' has_acceptance_criteria '' @ [0x2014] @ js '' Add criteria'',
          js ''  '' @ [0x2717] @ js '' has_context'',
          js ''\<newline>Edit the issue body and re-run: npx speclint enforce --issue 42 --repo acme/backend''],
         1)
   \<and> minScore (parseEnforceArgs parseIntStub [js ''--issue'', js ''42'', js ''--repo'',
        js ''acme/backend''] (initialEnforceOptions None)) = Num 80"
proof -
  have score: "scoreOf (issueResult (wrappedResponse s)) = Num s" for s
    by (simp add: wrappedResponse_def issueResult_def scoreOf_def)
  have parts: "lintIdOf (issueResult (wrappedResponse s)) = js ''#L1''"
    "agentReadyOf (issueResult (wrappedResponse s)) = False"
    "checksOf (issueResult (wrappedResponse s)) = sampleChecks" for s
    by (simp_all add: wrappedResponse_def issueResult_def lintIdOf_def agentReadyOf_def
        checksOf_def js_def)
  have shown: "showWhole (Num 80) = js ''80''" "showWhole (Num 79) = js ''79''"
    by (simp_all add: showWhole_def showNat.simps js_def)
  have pass80: "enforceReport showWhole (js ''42'') (js ''acme/backend'') (js ''Fix login'') (Num 80)
        (wrappedResponse 80)
      = ([[0x2705] @ js '' Lint passed | #L1 | Score: 80/100 | agent_ready: false'',
          js ''Issue #42: '' @ [0x22] @ js ''Fix login'' @ [0x22],
          js ''Proceeding with implementation.''], 0)"
    using enforce_threshold [of "wrappedResponse 80" "Num 80" showWhole "js ''42''"
        "js ''acme/backend''" "js ''Fix login''"]
    by (simp add: score parts shown idPart_def showBool_def js_def)
  have below: "js_lt (scoreOf (issueResult (wrappedResponse 79))) (Num 80)"
    by (simp add: score)
  have fail79: "enforceReport showWhole (js ''42'') (js ''acme/backend'') (js ''Fix login'') (Num 80)
        (wrappedResponse 79)
      = ([[0x274C] @ js '' Lint failed | #L1 | Score: 79/100 | NOT agent_ready'',
          js ''Issue #42: '' @ [0x22] @ js ''Fix login'' @ [0x22],
          js ''\<newline>Missing:'',
          js ''  '' @ [0x2717] @ js '' has_acceptance_criteria '' @ [0x2014] @ js '' Add criteria'',
          js ''  '' @ [0x2717] @ js '' has_context'',
          js ''\<newline>Edit the issue body and re-run: npx speclint enforce --issue 42 --repo acme/backend''],
         1)"
    using enforce_threshold [of "wrappedResponse 79" "Num 80" showWhole "js ''42''"
        "js ''acme/backend''" "js ''Fix login''"] below
    by (simp add: score parts shown idPart_def sampleChecks_def failingLine_def js_def)
  have dflt: "minScore (parseEnforceArgs parseIntStub [js ''--issue'', js ''42'', js ''--repo'',
        js ''acme/backend''] (initialEnforceOptions None)) = Num 80"
    using enforce_threshold [where args = "[js ''--issue'', js ''42'', js ''--repo'',
        js ''acme/backend'']" and parseInt = parseIntStub and tok = None]
    by (simp add: js_def)
  from score [of 80] pass80 below fail79 dflt show ?thesis by (intro conjI)
qed

text \<open>
  C5. The result is the first element of the list when the list has one, and the flat
  response when the list is absent or empty. From it the score is taken with default 0,
  the ready flag with default false, the identifier when it is non-empty, and the checks
  with default none; the exit status is decided by comparing that score.
\<close>

theorem issueResult_normalisation:
  "(\<forall>first others. issues r = Some (first # others) \<longrightarrow> issueResult r = first)
   \<and> (issues r = None \<or> issues r = Some [] \<longrightarrow> issueResult r = LintIssue.truncate r)
   \<and> (completeness_score (issueResult r) = None \<longrightarrow> scoreOf (issueResult r) = Num 0)
   \<and> (\<forall>n. completeness_score (issueResult r) = Some n \<longrightarrow> scoreOf (issueResult r) = n)
   \<and> (agent_ready (issueResult r) = None \<longrightarrow> agentReadyOf (issueResult r) = False)
   \<and> (\<forall>b. agent_ready (issueResult r) = Some b \<longrightarrow> agentReadyOf (issueResult r) = b)
   \<and> (lint_id (issueResult r) = None \<or> lint_id (issueResult r) = Some [] \<longrightarrow>
        lintIdOf (issueResult r) = [])
   \<and> (\<forall>i. lint_id (issueResult r) = Some i \<and> i \<noteq> [] \<longrightarrow>
        lintIdOf (issueResult r) = js ''#'' @ i)
   \<and> (checks (issueResult r) = None \<longrightarrow> checksOf (issueResult r) = [])
   \<and> (\<forall>cs. checks (issueResult r) = Some cs \<longrightarrow> checksOf (issueResult r) = cs)
   \<and> snd (enforceReport showNum no rp ttl thr r)
       = (if js_ge (scoreOf (issueResult r)) thr then 0 else 1)"
  by (auto simp: issueResult_def scoreOf_def agentReadyOf_def lintIdOf_def checksOf_def
      enforceReport_def Let_def split: option.splits list.splits)

text \<open>
  A response whose list is present and empty: the result is no element of the list but the
  flat object, with its score 90.
\<close>

theorem empty_issues_counterexample:
  "issues emptyIssuesResponse = Some []
   \<and> issueResult emptyIssuesResponse \<notin> set (the (issues emptyIssuesResponse))
   \<and> issueResult emptyIssuesResponse = LintIssue.truncate emptyIssuesResponse
   \<and> scoreOf (issueResult emptyIssuesResponse) = Num 90"
  by (simp add: emptyIssuesResponse_def issueResult_def scoreOf_def LintIssue.truncate_def)

theorem issueResult_normalisation_witness:
  "issueResult (wrappedResponse 79)
     = \<lparr>lint_id = Some (js ''L1''), completeness_score = Some (Num 79),
        agent_ready = Some False, lint_title = None, checks = Some sampleChecks\<rparr>
   \<and> scoreOf (issueResult (wrappedResponse 79)) = Num 79
   \<and> agentReadyOf (issueResult (wrappedResponse 79)) = False
   \<and> lintIdOf (issueResult (wrappedResponse 79)) = js ''#L1''
   \<and> checksOf (issueResult (wrappedResponse 79)) = sampleChecks
   \<and> issueResult flatResponse = LintIssue.truncate flatResponse
   \<and> scoreOf (issueResult flatResponse) = Num 0
   \<and> agentReadyOf (issueResult flatResponse) = False
   \<and> lintIdOf (issueResult flatResponse) = []
   \<and> checksOf (issueResult flatResponse) = []
   \<and> issueResult emptyIssuesResponse = LintIssue.truncate emptyIssuesResponse"
proof -
  let ?first = "\<lparr>lint_id = Some (js ''L1''), completeness_score = Some (Num 79),
        agent_ready = Some False, lint_title = None, checks = Some sampleChecks\<rparr>"
  note wrapped = issueResult_normalisation [of "wrappedResponse 79" showWhole "[]" "[]" "[]" NaN]
  note flat = issueResult_normalisation [of flatResponse showWhole "[]" "[]" "[]" NaN]
  note empty = issueResult_normalisation [of emptyIssuesResponse showWhole "[]" "[]" "[]" NaN]
  have "issues (wrappedResponse 79) = Some (?first # [])"
    by (simp add: wrappedResponse_def)
  with wrapped have first: "issueResult (wrappedResponse 79) = ?first"
    by blast
  have "completeness_score (issueResult (wrappedResponse 79)) = Some (Num 79)"
    "agent_ready (issueResult (wrappedResponse 79)) = Some False"
    "lint_id (issueResult (wrappedResponse 79)) = Some (js ''L1'') \<and> js ''L1'' \<noteq> []"
    "checks (issueResult (wrappedResponse 79)) = Some sampleChecks"
    unfolding first by (simp_all add: js_def)
  with wrapped have w: "scoreOf (issueResult (wrappedResponse 79)) = Num 79"
    "agentReadyOf (issueResult (wrappedResponse 79)) = False"
    "lintIdOf (issueResult (wrappedResponse 79)) = js ''#'' @ js ''L1''"
    "checksOf (issueResult (wrappedResponse 79)) = sampleChecks"
    by blast+
  have "issues flatResponse = None"
    by (simp add: flatResponse_def)
  with flat have fl: "issueResult flatResponse = LintIssue.truncate flatResponse"
    by blast
  have "completeness_score (issueResult flatResponse) = None"
    "agent_ready (issueResult flatResponse) = None"
    "lint_id (issueResult flatResponse) = None"
    "checks (issueResult flatResponse) = None"
    unfolding fl by (simp_all add: flatResponse_def LintIssue.truncate_def)
  with flat have f: "scoreOf (issueResult flatResponse) = Num 0"
    "agentReadyOf (issueResult flatResponse) = False"
    "lintIdOf (issueResult flatResponse) = []"
    "checksOf (issueResult flatResponse) = []"
    by blast+
  have "issues emptyIssuesResponse = Some []"
    by (simp add: emptyIssuesResponse_def)
  with empty have e: "issueResult emptyIssuesResponse = LintIssue.truncate emptyIssuesResponse"
    by blast
  have hash: "js ''#'' @ js ''L1'' = js ''#L1''"
    by (simp add: js_def)
  from first w fl f e show ?thesis
    unfolding hash by (intro conjI)
qed

section \<open>Properties of the default flow\<close>

lemma positional_not_flag:
  assumes "\<not> startsWith arg (js ''-'')"
  shows "arg \<noteq> js ''--format''" "arg \<noteq> js ''--context''" "arg \<noteq> js ''-c''"
    "arg \<noteq> js ''--no-auto-context''" "arg \<noteq> js ''--key''" "arg \<noteq> js ''-k''"
    "arg \<noteq> js ''--file''" "arg \<noteq> js ''-f''" "arg \<noteq> js ''--user-stories''"
    "arg \<noteq> js ''--gherkin''" "arg \<noteq> js ''--help''" "arg \<noteq> js ''-h''"
    "arg \<noteq> js ''--version''" "arg \<noteq> js ''-v''"
  using assms by (auto simp: startsWith_def js_def)

lemma parseArgs_positional:
  "\<not> startsWith arg (js ''-'') \<Longrightarrow>
   parseArgs (arg # rest) opts = parseArgs rest (opts\<lparr>items := items opts @ [arg]\<rparr>)"
  by (simp add: positional_not_flag)

lemma parseArgs_positionals:
  "\<forall>a \<in> set pos. \<not> startsWith a (js ''-'') \<Longrightarrow>
   parseArgs (pos @ rest) opts = parseArgs rest (opts\<lparr>items := items opts @ pos\<rparr>)"
proof (induction pos arbitrary: opts)
  case Nil
  show ?case by simp
next
  case (Cons a pos)
  then have "parseArgs ((a # pos) @ rest) opts
      = parseArgs (pos @ rest) (opts\<lparr>items := items opts @ [a]\<rparr>)"
    using parseArgs_positional [of a "pos @ rest" opts] by simp
  also have "\<dots> = parseArgs rest (opts\<lparr>items := items opts @ [a]\<rparr>
      \<lparr>items := items (opts\<lparr>items := items opts @ [a]\<rparr>) @ pos\<rparr>)"
    using Cons by simp
  finally show ?case by simp
qed

lemma explicit_persists:
  "contextExplicitlyProvided opts \<Longrightarrow> contextExplicitlyProvided (parseArgs args opts)"
  by (induction args opts rule: parseArgs.induct) simp_all

lemma parseArgs_format:
  "parseArgs (js ''--format'' # v # rest) opts
       = parseArgs rest (opts\<lparr>format := (if v = [] then js ''markdown'' else v)\<rparr>)"
  by (simp add: nextArg_def)

lemma parseArgs_context:
  "c = js ''--context'' \<or> c = js ''-c'' \<Longrightarrow>
        parseArgs (c # rest) opts
        = parseArgs (tl rest) (opts\<lparr>contextOpt := nextArg rest, contextExplicitlyProvided := True\<rparr>)"
  by (auto simp: js_def)

lemma parseArgs_key:
  "k = js ''--key'' \<or> k = js ''-k'' \<Longrightarrow>
        parseArgs (k # rest) opts = parseArgs (tl rest) (opts\<lparr>licenseKey := nextArg rest\<rparr>)"
  by (auto simp: js_def)

lemma parseArgs_file:
  "f = js ''--file'' \<or> f = js ''-f'' \<Longrightarrow>
        parseArgs (f # rest) opts = parseArgs (tl rest) (opts\<lparr>filePath := nextArg rest\<rparr>)"
  by (auto simp: js_def)

lemma parseArgs_unknown:
  assumes "startsWith arg (js ''-'')"
    and "arg \<notin> {js ''--format'', js ''--context'', js ''-c'', js ''--no-auto-context'',
                 js ''--key'', js ''-k'', js ''--file'', js ''-f'', js ''--user-stories'',
                 js ''--gherkin''}"
  shows "parseArgs (arg # rest) opts = parseArgs rest opts"
  using assms by simp

lemma main_request_unknown:
  assumes "parseArgs (arg # rest) initialOptions = parseArgs rest initialOptions"
    and "arg \<notin> {js ''--help'', js ''-h'', js ''--version'', js ''-v''}"
  shows "main_request parse toStr stringify byteLength fs stdin (arg # rest)
           = main_request parse toStr stringify byteLength fs stdin rest"
proof -
  have "js ''--help'' \<in> set (arg # rest) \<longleftrightarrow> js ''--help'' \<in> set rest"
      "js ''-h'' \<in> set (arg # rest) \<longleftrightarrow> js ''-h'' \<in> set rest"
      "js ''--version'' \<in> set (arg # rest) \<longleftrightarrow> js ''--version'' \<in> set rest"
      "js ''-v'' \<in> set (arg # rest) \<longleftrightarrow> js ''-v'' \<in> set rest"
    using assms(2) by auto
  then show ?thesis
    unfolding main_request_def assms(1) by (simp only:)
qed

lemma unknown_ignored: "startsWith arg (js ''-'')
      \<and> arg \<notin> {js ''--format'', js ''--context'', js ''-c'', js ''--no-auto-context'',
                 js ''--key'', js ''-k'', js ''--file'', js ''-f'', js ''--user-stories'',
                 js ''--gherkin''} \<longrightarrow>
      parseArgs (arg # rest) opts = parseArgs rest opts
      \<and> (arg \<notin> {js ''--help'', js ''-h'', js ''--version'', js ''-v''} \<longrightarrow>
           main_request parse toStr stringify byteLength fs stdin (arg # rest)
           = main_request parse toStr stringify byteLength fs stdin rest)"
proof (intro impI conjI)
  assume unknown: "startsWith arg (js ''-'')
      \<and> arg \<notin> {js ''--format'', js ''--context'', js ''-c'', js ''--no-auto-context'',
                 js ''--key'', js ''-k'', js ''--file'', js ''-f'', js ''--user-stories'',
                 js ''--gherkin''}"
  then show "parseArgs (arg # rest) opts = parseArgs rest opts"
    by (intro parseArgs_unknown) (rule conjunct1, assumption, rule conjunct2, assumption)
  assume "arg \<notin> {js ''--help'', js ''-h'', js ''--version'', js ''-v''}"
  moreover from unknown have "parseArgs (arg # rest) initialOptions = parseArgs rest initialOptions"
    by (intro parseArgs_unknown) (rule conjunct1, assumption, rule conjunct2, assumption)
  ultimately show "main_request parse toStr stringify byteLength fs stdin (arg # rest)
           = main_request parse toStr stringify byteLength fs stdin rest"
    by (intro main_request_unknown)
qed

lemma context_consumes: "c = js ''--context'' \<or> c = js ''-c'' \<longrightarrow>
        parseArgs (c # v # rest) opts
        = parseArgs rest (opts\<lparr>contextOpt := Some v, contextExplicitlyProvided := True\<rparr>)"
  using parseArgs_context [of c "v # rest" opts] by (simp add: nextArg_def del: parseArgs.simps)

lemma key_consumes: "k = js ''--key'' \<or> k = js ''-k'' \<longrightarrow>
        parseArgs (k # v # rest) opts = parseArgs rest (opts\<lparr>licenseKey := Some v\<rparr>)"
  using parseArgs_key [of k "v # rest" opts] by (simp add: nextArg_def del: parseArgs.simps)

lemma file_consumes: "f = js ''--file'' \<or> f = js ''-f'' \<longrightarrow>
        parseArgs (f # v # rest) opts = parseArgs rest (opts\<lparr>filePath := Some v\<rparr>)"
  using parseArgs_file [of f "v # rest" opts] by (simp add: nextArg_def del: parseArgs.simps)

lemma dash_arguments_in_loop:
  "(startsWith arg (js ''-'')
      \<and> arg \<notin> {js ''--format'', js ''--context'', js ''-c'', js ''--no-auto-context'',
                 js ''--key'', js ''-k'', js ''--file'', js ''-f'', js ''--user-stories'',
                 js ''--gherkin''} \<longrightarrow>
      parseArgs (arg # rest) opts = parseArgs rest opts
      \<and> (arg \<notin> {js ''--help'', js ''-h'', js ''--version'', js ''-v''} \<longrightarrow>
           main_request parse toStr stringify byteLength fs stdin (arg # rest)
           = main_request parse toStr stringify byteLength fs stdin rest))
   \<and> parseArgs (js ''--format'' # v # rest) opts
       = parseArgs rest (opts\<lparr>format := (if v = [] then js ''markdown'' else v)\<rparr>)
   \<and> (c = js ''--context'' \<or> c = js ''-c'' \<longrightarrow>
        parseArgs (c # v # rest) opts
        = parseArgs rest (opts\<lparr>contextOpt := Some v, contextExplicitlyProvided := True\<rparr>))
   \<and> (k = js ''--key'' \<or> k = js ''-k'' \<longrightarrow>
        parseArgs (k # v # rest) opts = parseArgs rest (opts\<lparr>licenseKey := Some v\<rparr>))
   \<and> (f = js ''--file'' \<or> f = js ''-f'' \<longrightarrow>
        parseArgs (f # v # rest) opts = parseArgs rest (opts\<lparr>filePath := Some v\<rparr>))"
  by (intro conjI unknown_ignored parseArgs_format context_consumes key_consumes file_consumes)

lemma trim_ends:
  assumes "trim s \<noteq> []"
  shows "\<not> isWhiteSpace (hd (trim s)) \<and> \<not> isWhiteSpace (last (trim s))"
proof -
  let ?t = "dropWhile isWhiteSpace s"
  let ?u = "dropWhile isWhiteSpace (rev ?t)"
  have u: "?u \<noteq> []"
    using assms by (simp add: trim_def)
  have t: "?t \<noteq> []"
  proof
    assume "?t = []"
    then have "?u = []"
      by (simp only: rev.simps dropWhile.simps)
    with u show False
      by contradiction
  qed
  have "\<not> isWhiteSpace (hd ?u)"
    using u by (rule hd_dropWhile)
  then have last_ok: "\<not> isWhiteSpace (last (trim s))"
    using u by (simp add: trim_def last_rev)
  have "last ?u = last (rev ?t)"
  proof -
    have "rev ?t = takeWhile isWhiteSpace (rev ?t) @ ?u"
      by simp
    then show ?thesis
      using u by (metis last_appendR)
  qed
  also have "\<dots> = hd ?t"
    using t by (simp add: last_rev)
  finally have "hd (trim s) = hd ?t"
    using u by (simp add: trim_def hd_rev)
  moreover have "\<not> isWhiteSpace (hd ?t)"
    using t by (rule hd_dropWhile)
  ultimately show ?thesis
    using last_ok by simp
qed

lemma fileLines_alt:
  "fileLines content = map trim (filter (\<lambda>l. trim l \<noteq> []) (split 0xA content))"
  by (simp add: fileLines_def filter_map comp_def)

lemma readStdin_alt:
  "readStdin (Some lines) = map trim (filter (\<lambda>l. trim l \<noteq> []) lines)"
  by (simp add: readStdin_def filter_map comp_def)

lemma collected_lines_trimmed:
  "\<forall>x \<in> set (fileLines content) \<union> set (readStdin stdin).
      x \<noteq> [] \<and> \<not> isWhiteSpace (hd x) \<and> \<not> isWhiteSpace (last x)"
proof
  fix x
  assume "x \<in> set (fileLines content) \<union> set (readStdin stdin)"
  then obtain l where "x = trim l" "trim l \<noteq> []"
    by (cases stdin) (auto simp: fileLines_def readStdin_def)
  then show "x \<noteq> [] \<and> \<not> isWhiteSpace (hd x) \<and> \<not> isWhiteSpace (last x)"
    using trim_ends [of l] by simp
qed

lemma collectItems_shape:
  "collectItems fs stdin opts = Inr merged \<longrightarrow>
     (\<exists>fromFile. merged = items opts @ fromFile @ readStdin stdin
        \<and> (filePath opts = None \<or> filePath opts = Some [] \<longrightarrow> fromFile = [])
        \<and> (\<forall>p. filePath opts = Some p \<and> p \<noteq> [] \<longrightarrow>
             (\<exists>content. fs p = Content content \<and> fromFile = fileLines content)))"
  by (auto simp: collectItems_def split: option.splits fileState.splits if_splits)

lemma detect_backlogOnly:
  "detectProjectContext parse toStr backlogOnly = (None, [])"
  by (simp add: detectProjectContext_def sources_def backlogOnly_def initState_def report_def
      MAX_CHARS_def js_def)

lemma parse_example:
  "parseArgs [js ''A'', js ''--file'', js ''backlog.txt''] initialOptions
     = initialOptions\<lparr>items := [js ''A''], filePath := Some (js ''backlog.txt'')\<rparr>"
  by (simp add: js_def startsWith_def nextArg_def initialOptions_def)

lemma fileLines_example: "fileLines (js ''B\<newline>C'') = [js ''B'', js ''C'']"
  by (simp add: fileLines_def js_def trim_def isWhiteSpace_def)

lemma readStdin_example: "readStdin (Some [js ''D'']) = [js ''D'']"
  by (simp add: readStdin_def js_def trim_def isWhiteSpace_def)

lemma collect_example:
  "collectItems backlogOnly (Some [js ''D''])
     (parseArgs [js ''A'', js ''--file'', js ''backlog.txt''] initialOptions)
   = Inr [js ''A'', js ''B'', js ''C'', js ''D'']"
proof -
  have path: "js ''backlog.txt'' \<noteq> []"
    by (simp add: js_def)
  show ?thesis
    unfolding parse_example
    by (simp add: collectItems_def backlogOnly_def path fileLines_example readStdin_example
        initialOptions_def)
qed

lemma main_example:
  "main_request parse toStr stringify byteLength backlogOnly (Some [js ''D''])
     [js ''A'', js ''--file'', js ''backlog.txt'']
   = Inr ([], callApi_request stringify byteLength [js ''A'', js ''B'', js ''C'', js ''D'']
        None False False None)"
proof -
  have nohelp: "js ''--help'' \<notin> set [js ''A'', js ''--file'', js ''backlog.txt'']"
    "js ''-h'' \<notin> set [js ''A'', js ''--file'', js ''backlog.txt'']"
    "js ''--version'' \<notin> set [js ''A'', js ''--file'', js ''backlog.txt'']"
    "js ''-v'' \<notin> set [js ''A'', js ''--file'', js ''backlog.txt'']"
    by (simp_all add: js_def)
  have resolve: "resolveContext parse toStr backlogOnly
      (initialOptions\<lparr>items := [js ''A''], filePath := Some (js ''backlog.txt'')\<rparr>) = (None, [])"
    by (simp add: resolveContext_def detect_backlogOnly initialOptions_def)
  show ?thesis
    unfolding main_request_def Let_def parse_example collect_example [unfolded parse_example]
      resolve
    using nohelp by (simp add: initialOptions_def)
qed

text \<open>
  C4. The merged list is the items of the argument loop, then the lines of the named
  file, then the lines of standard input. The lines of both sources are trimmed and the
  blank ones dropped, so each has a first and a last code unit that is not white space.
  Arguments that do not start with \<open>-\<close> are appended to the items in their order. For
  the arguments \<open>A --file backlog.txt\<close>, the file \<open>B\<close>, \<open>C\<close> and the piped line
  \<open>D\<close> the merged list is \<open>A\<close>, \<open>B\<close>, \<open>C\<close>, \<open>D\<close>, and it is the list sent.
\<close>

theorem collectItems_merge_order:
  "(collectItems fs stdin opts = Inr merged \<longrightarrow>
     (\<exists>fromFile. merged = items opts @ fromFile @ readStdin stdin
        \<and> (filePath opts = None \<or> filePath opts = Some [] \<longrightarrow> fromFile = [])
        \<and> (\<forall>p. filePath opts = Some p \<and> p \<noteq> [] \<longrightarrow>
             (\<exists>content. fs p = Content content \<and> fromFile = fileLines content))))
   \<and> fileLines content = map trim (filter (\<lambda>l. trim l \<noteq> []) (split 0xA content))
   \<and> readStdin (Some lines) = map trim (filter (\<lambda>l. trim l \<noteq> []) lines)
   \<and> readStdin None = []
   \<and> (\<forall>x \<in> set (fileLines content) \<union> set (readStdin stdin).
        x \<noteq> [] \<and> \<not> isWhiteSpace (hd x) \<and> \<not> isWhiteSpace (last x))
   \<and> ((\<forall>a \<in> set pos. \<not> startsWith a (js ''-'')) \<longrightarrow>
        parseArgs (pos @ rest) opts = parseArgs rest (opts\<lparr>items := items opts @ pos\<rparr>))
   \<and> collectItems backlogOnly (Some [js ''D''])
        (parseArgs [js ''A'', js ''--file'', js ''backlog.txt''] initialOptions)
       = Inr [js ''A'', js ''B'', js ''C'', js ''D'']
   \<and> main_request parse toStr stringify byteLength backlogOnly (Some [js ''D''])
        [js ''A'', js ''--file'', js ''backlog.txt'']
       = Inr ([], callApi_request stringify byteLength [js ''A'', js ''B'', js ''C'', js ''D'']
           None False False None)"
proof -
  have tty: "readStdin None = []"
    by (simp add: readStdin_def)
  have positional: "(\<forall>a \<in> set pos. \<not> startsWith a (js ''-'')) \<longrightarrow>
        parseArgs (pos @ rest) opts = parseArgs rest (opts\<lparr>items := items opts @ pos\<rparr>)"
    using parseArgs_positionals [of pos rest opts] by (rule impI)
  show ?thesis
    by (intro conjI collectItems_shape fileLines_alt readStdin_alt tty collected_lines_trimmed
        positional collect_example main_example)
qed

theorem collectItems_merge_order_witness:
  "collectItems paddedBacklog (Some [js '' D '', js ''   ''])
      (parseArgs [js ''--file'', js ''backlog.txt'', js ''A''] initialOptions)
     = Inr [js ''A'', js ''B'', js ''C'', js ''D'']
   \<and> (\<exists>fromFile. [js ''A'', js ''B'', js ''C'', js ''D'']
         = items (parseArgs [js ''--file'', js ''backlog.txt'', js ''A''] initialOptions)
           @ fromFile @ readStdin (Some [js '' D '', js ''   ''])
        \<and> fromFile = fileLines (js ''  B \<newline>\<newline> C\<newline>''))
   \<and> js ''B'' \<in> set (fileLines (js ''  B \<newline>\<newline> C\<newline>''))
   \<and> \<not> isWhiteSpace (hd (js ''B'')) \<and> \<not> isWhiteSpace (last (js ''B''))
   \<and> parseArgs ([js ''A'', js ''E''] @ [js ''--gherkin'']) initialOptions
       = parseArgs [js ''--gherkin'']
           (initialOptions\<lparr>items := items initialOptions @ [js ''A'', js ''E'']\<rparr>)"
proof -
  let ?opts = "parseArgs [js ''--file'', js ''backlog.txt'', js ''A''] initialOptions"
  have opts: "?opts = initialOptions\<lparr>items := [js ''A''], filePath := Some (js ''backlog.txt'')\<rparr>"
    by (simp add: js_def startsWith_def nextArg_def initialOptions_def)
  have path: "js ''backlog.txt'' \<noteq> []"
    by (simp add: js_def)
  have lines: "fileLines (js ''  B \<newline>\<newline> C\<newline>'') = [js ''B'', js ''C'']"
    by (simp add: fileLines_def js_def trim_def isWhiteSpace_def)
  have piped: "readStdin (Some [js '' D '', js ''   '']) = [js ''D'']"
    by (simp add: readStdin_def js_def trim_def isWhiteSpace_def)
  have run: "collectItems paddedBacklog (Some [js '' D '', js ''   '']) ?opts
      = Inr [js ''A'', js ''B'', js ''C'', js ''D'']"
    unfolding opts
    by (simp add: collectItems_def paddedBacklog_def path lines piped initialOptions_def)
  note inst = collectItems_merge_order [where fs = paddedBacklog
      and stdin = "Some [js '' D '', js ''   '']" and opts = ?opts
      and merged = "[js ''A'', js ''B'', js ''C'', js ''D'']"
      and content = "js ''  B \<newline>\<newline> C\<newline>''"]
  obtain fromFile where merged: "[js ''A'', js ''B'', js ''C'', js ''D'']
        = items ?opts @ fromFile @ readStdin (Some [js '' D '', js ''   ''])"
    and named: "\<forall>p. filePath ?opts = Some p \<and> p \<noteq> [] \<longrightarrow>
             (\<exists>content. paddedBacklog p = Content content \<and> fromFile = fileLines content)"
    using inst [THEN conjunct1, THEN mp, OF run] by blast
  have "filePath ?opts = Some (js ''backlog.txt'') \<and> js ''backlog.txt'' \<noteq> []"
    unfolding opts by (simp add: path)
  with named obtain content where "paddedBacklog (js ''backlog.txt'') = Content content"
    and "fromFile = fileLines content"
    by blast
  then have "fromFile = fileLines (js ''  B \<newline>\<newline> C\<newline>'')"
    by (simp add: paddedBacklog_def)
  with merged have shape: "\<exists>fromFile. [js ''A'', js ''B'', js ''C'', js ''D'']
         = items ?opts @ fromFile @ readStdin (Some [js '' D '', js ''   ''])
        \<and> fromFile = fileLines (js ''  B \<newline>\<newline> C\<newline>'')"
    by blast
  have member: "js ''B'' \<in> set (fileLines (js ''  B \<newline>\<newline> C\<newline>''))"
    unfolding lines by simp
  then have "js ''B'' \<in> set (fileLines (js ''  B \<newline>\<newline> C\<newline>''))
      \<union> set (readStdin (Some [js '' D '', js ''   '']))"
    by simp
  then have trimmed: "\<not> isWhiteSpace (hd (js ''B''))" "\<not> isWhiteSpace (last (js ''B''))"
    using inst [THEN conjunct2, THEN conjunct2, THEN conjunct2, THEN conjunct2, THEN conjunct1]
    by blast+
  have "\<forall>a \<in> set [js ''A'', js ''E'']. \<not> startsWith a (js ''-'')"
    by (simp add: js_def startsWith_def)
  then have positional: "parseArgs ([js ''A'', js ''E''] @ [js ''--gherkin'']) initialOptions
       = parseArgs [js ''--gherkin'']
           (initialOptions\<lparr>items := items initialOptions @ [js ''A'', js ''E'']\<rparr>)"
    by (rule collectItems_merge_order [where pos = "[js ''A'', js ''E'']"
          and rest = "[js ''--gherkin'']" and opts = initialOptions,
          THEN conjunct2, THEN conjunct2, THEN conjunct2, THEN conjunct2, THEN conjunct2,
          THEN conjunct1, THEN mp])
  from run shape member trimmed positional show ?thesis
    by (intro conjI)
qed

lemma flag_not_help:
  assumes "c = js ''--context'' \<or> c = js ''-c''"
  shows "c \<noteq> js ''--help''" "c \<noteq> js ''-h''" "c \<noteq> js ''--version''" "c \<noteq> js ''-v''"
  using assms by (auto simp: js_def)

lemma empty_not_help:
  "[] \<noteq> js ''--help''" "[] \<noteq> js ''-h''" "[] \<noteq> js ''--version''" "[] \<noteq> js ''-v''"
  by (simp_all add: js_def)

lemma positional_no_help:
  assumes "\<forall>a \<in> set pos. \<not> startsWith a (js ''-'')"
  shows "js ''--help'' \<notin> set pos" "js ''-h'' \<notin> set pos" "js ''--version'' \<notin> set pos"
    "js ''-v'' \<notin> set pos"
proof -
  have "startsWith (js ''--help'') (js ''-'')" "startsWith (js ''-h'') (js ''-'')"
    "startsWith (js ''--version'') (js ''-'')" "startsWith (js ''-v'') (js ''-'')"
    by (simp_all add: startsWith_def js_def)
  with assms show "js ''--help'' \<notin> set pos" "js ''-h'' \<notin> set pos"
    "js ''--version'' \<notin> set pos" "js ''-v'' \<notin> set pos"
    by auto
qed

lemma resolveContext_suppressed:
  "contextExplicitlyProvided opts \<or> noAutoContext opts \<Longrightarrow>
   resolveContext parse toStr fs opts = (contextOpt opts, [])"
  by (auto simp: resolveContext_def)

lemma requestObject_empty_context:
  "requestObject its (Some []) stories gherkin = requestObject its None stories gherkin"
  by (simp add: requestObject_def)

lemma requestObject_no_context:
  "\<exists>fields. requestObject its None stories gherkin = JObj fields
      \<and> js ''context'' \<notin> fst ` set fields"
  by (auto simp: requestObject_def key_names_distinct)

lemma context_flag_sets_marker:
  assumes "c = js ''--context'' \<or> c = js ''-c''"
  shows "contextExplicitlyProvided (parseArgs (c # rest) opts)"
  unfolding parseArgs_context [OF assms]
  by (rule explicit_persists) simp

lemma context_flag_last:
  assumes "c = js ''--context'' \<or> c = js ''-c''"
  shows "parseArgs [c] opts = opts\<lparr>contextOpt := None, contextExplicitlyProvided := True\<rparr>"
    and "parseArgs [c, []] opts = opts\<lparr>contextOpt := Some [], contextExplicitlyProvided := True\<rparr>"
  unfolding parseArgs_context [OF assms] by (simp_all add: nextArg_def)

lemma main_request_context_flag:
  assumes c: "c = js ''--context'' \<or> c = js ''-c''"
    and nonempty: "pos \<noteq> []"
    and pos: "\<forall>a \<in> set pos. \<not> startsWith a (js ''-'')"
    and tail: "tail = [] \<or> tail = [[]]"
  shows "main_request parse toStr stringify byteLength fs stdin (pos @ c # tail)
    = Inr ([], callApi_request stringify byteLength (pos @ readStdin stdin) None False False None)"
proof -
  let ?opts = "initialOptions\<lparr>items := pos, contextOpt := nextArg tail,
      contextExplicitlyProvided := True\<rparr>"
  have "parseArgs (c # tail) opts
      = opts\<lparr>contextOpt := nextArg tail, contextExplicitlyProvided := True\<rparr>" for opts
    unfolding parseArgs_context [OF c] using tail by auto
  then have opts: "parseArgs (pos @ c # tail) initialOptions = ?opts"
    unfolding parseArgs_positionals [OF pos] by (simp add: initialOptions_def)
  have nohelp: "js ''--help'' \<notin> set (pos @ c # tail)" "js ''-h'' \<notin> set (pos @ c # tail)"
    "js ''--version'' \<notin> set (pos @ c # tail)" "js ''-v'' \<notin> set (pos @ c # tail)"
    using positional_no_help [OF pos] tail flag_not_help [OF c] empty_not_help
    by auto
  have collect: "collectItems fs stdin ?opts = Inr (pos @ readStdin stdin)"
    by (simp add: collectItems_def initialOptions_def)
  have resolve: "resolveContext parse toStr fs ?opts = (nextArg tail, [])"
    by (simp add: resolveContext_def)
  have request: "callApi_request stringify byteLength its (nextArg tail) False False None
      = callApi_request stringify byteLength its None False False None" for its
    using tail by (auto simp: callApi_request_def requestObject_def nextArg_def)
  show ?thesis
    unfolding main_request_def Let_def opts collect resolve
    using nohelp nonempty by (simp add: request initialOptions_def)
qed

lemma context_flag_core:
  "(c = js ''--context'' \<or> c = js ''-c'' \<longrightarrow>
      contextExplicitlyProvided (parseArgs (c # rest) opts)
      \<and> resolveContext parse toStr fs (parseArgs (c # rest) opts)
          = (contextOpt (parseArgs (c # rest) opts), [])
      \<and> parseArgs [c] opts = opts\<lparr>contextOpt := None, contextExplicitlyProvided := True\<rparr>
      \<and> parseArgs [c, []] opts
          = opts\<lparr>contextOpt := Some [], contextExplicitlyProvided := True\<rparr>
      \<and> (pos \<noteq> [] \<and> (\<forall>a \<in> set pos. \<not> startsWith a (js ''-''))
           \<and> (tail = [] \<or> tail = [[]]) \<longrightarrow>
          main_request parse toStr stringify byteLength fs stdin (pos @ c # tail)
          = Inr ([], callApi_request stringify byteLength (pos @ readStdin stdin) None False
              False None)))
   \<and> (contextExplicitlyProvided opts' \<or> noAutoContext opts' \<longrightarrow>
        resolveContext parse toStr fs opts' = (contextOpt opts', []))
   \<and> requestObject its (Some []) stories gherkin = requestObject its None stories gherkin
   \<and> (\<exists>fields. requestObject its None stories gherkin = JObj fields
        \<and> js ''context'' \<notin> fst ` set fields)"
proof -
  have flag: "c = js ''--context'' \<or> c = js ''-c'' \<longrightarrow>
      contextExplicitlyProvided (parseArgs (c # rest) opts)
      \<and> resolveContext parse toStr fs (parseArgs (c # rest) opts)
          = (contextOpt (parseArgs (c # rest) opts), [])
      \<and> parseArgs [c] opts = opts\<lparr>contextOpt := None, contextExplicitlyProvided := True\<rparr>
      \<and> parseArgs [c, []] opts
          = opts\<lparr>contextOpt := Some [], contextExplicitlyProvided := True\<rparr>
      \<and> (pos \<noteq> [] \<and> (\<forall>a \<in> set pos. \<not> startsWith a (js ''-''))
           \<and> (tail = [] \<or> tail = [[]]) \<longrightarrow>
          main_request parse toStr stringify byteLength fs stdin (pos @ c # tail)
          = Inr ([], callApi_request stringify byteLength (pos @ readStdin stdin) None False
              False None))"
  proof
    assume c: "c = js ''--context'' \<or> c = js ''-c''"
    have marker: "contextExplicitlyProvided (parseArgs (c # rest) opts)"
      using c by (rule context_flag_sets_marker)
    have suppressed: "resolveContext parse toStr fs (parseArgs (c # rest) opts)
          = (contextOpt (parseArgs (c # rest) opts), [])"
      using marker by (intro resolveContext_suppressed disjI1)
    have whole: "pos \<noteq> [] \<and> (\<forall>a \<in> set pos. \<not> startsWith a (js ''-''))
           \<and> (tail = [] \<or> tail = [[]]) \<longrightarrow>
          main_request parse toStr stringify byteLength fs stdin (pos @ c # tail)
          = Inr ([], callApi_request stringify byteLength (pos @ readStdin stdin) None False
              False None)"
      using main_request_context_flag [OF c, of pos tail] by (intro impI) (elim conjE)
    show "contextExplicitlyProvided (parseArgs (c # rest) opts)
      \<and> resolveContext parse toStr fs (parseArgs (c # rest) opts)
          = (contextOpt (parseArgs (c # rest) opts), [])
      \<and> parseArgs [c] opts = opts\<lparr>contextOpt := None, contextExplicitlyProvided := True\<rparr>
      \<and> parseArgs [c, []] opts
          = opts\<lparr>contextOpt := Some [], contextExplicitlyProvided := True\<rparr>
      \<and> (pos \<noteq> [] \<and> (\<forall>a \<in> set pos. \<not> startsWith a (js ''-''))
           \<and> (tail = [] \<or> tail = [[]]) \<longrightarrow>
          main_request parse toStr stringify byteLength fs stdin (pos @ c # tail)
          = Inr ([], callApi_request stringify byteLength (pos @ readStdin stdin) None False
              False None))"
      by (intro conjI marker suppressed context_flag_last [OF c] whole)
  qed
  have general: "contextExplicitlyProvided opts' \<or> noAutoContext opts' \<longrightarrow>
        resolveContext parse toStr fs opts' = (contextOpt opts', [])"
    using resolveContext_suppressed [of opts'] by (rule impI)
  show ?thesis
    by (intro conjI flag general requestObject_empty_context requestObject_no_context)
qed

lemma parseArgs_noAuto:
  "parseArgs (js ''--no-auto-context'' # rest) opts
     = parseArgs rest (opts\<lparr>noAutoContext := True\<rparr>)"
  by (simp add: js_def)

lemma noAuto_persists:
  "noAutoContext opts \<Longrightarrow> noAutoContext (parseArgs args opts)"
  by (induction args opts rule: parseArgs.induct) simp_all

lemma noAuto_flag_sets_marker:
  "noAutoContext (parseArgs (js ''--no-auto-context'' # rest) opts)"
  unfolding parseArgs_noAuto by (rule noAuto_persists) simp

lemma markers_unchanged:
  "js ''--context'' \<notin> set args \<Longrightarrow> js ''-c'' \<notin> set args \<Longrightarrow>
   js ''--no-auto-context'' \<notin> set args \<Longrightarrow>
   contextExplicitlyProvided (parseArgs args opts) = contextExplicitlyProvided opts
   \<and> noAutoContext (parseArgs args opts) = noAutoContext opts
   \<and> contextOpt (parseArgs args opts) = contextOpt opts"
proof (induction args opts rule: parseArgs.induct)
  case (1 opts)
  show ?case by simp
next
  case (2 arg rest opts)
  have rest: "js ''--context'' \<notin> set rest" "js ''-c'' \<notin> set rest"
    "js ''--no-auto-context'' \<notin> set rest"
    "js ''--context'' \<notin> set (tl rest)" "js ''-c'' \<notin> set (tl rest)"
    "js ''--no-auto-context'' \<notin> set (tl rest)"
    using 2(10,11,12) by (auto dest: in_set_tl)
  have arg: "arg \<noteq> js ''--context''" "arg \<noteq> js ''-c''" "arg \<noteq> js ''--no-auto-context''"
    using 2(10,11,12) by auto
  show ?case
    using 2(1,4,5,6,7,8,9) rest arg by (simp add: js_def)
qed

lemma resolveContext_detects:
  "\<not> contextExplicitlyProvided opts \<and> \<not> noAutoContext opts \<longrightarrow>
   resolveContext parse toStr fs opts =
     ((case fst (detectProjectContext parse toStr fs) of
         None \<Rightarrow> contextOpt opts
       | Some d \<Rightarrow> if d \<noteq> [] then Some d else contextOpt opts),
      map ConsoleError (snd (detectProjectContext parse toStr fs)))"
  by (simp add: resolveContext_def case_prod_unfold)

lemma noAuto_not_help:
  "js ''--no-auto-context'' \<noteq> js ''--help''" "js ''--no-auto-context'' \<noteq> js ''-h''"
  "js ''--no-auto-context'' \<noteq> js ''--version''" "js ''--no-auto-context'' \<noteq> js ''-v''"
  by (simp_all add: js_def)

lemma main_request_noAuto:
  assumes nonempty: "pos \<noteq> []"
    and pos: "\<forall>a \<in> set pos. \<not> startsWith a (js ''-'')"
  shows "main_request parse toStr stringify byteLength fs stdin (pos @ [js ''--no-auto-context''])
    = Inr ([], callApi_request stringify byteLength (pos @ readStdin stdin) None False False None)"
proof -
  let ?opts = "initialOptions\<lparr>items := pos, noAutoContext := True\<rparr>"
  have opts: "parseArgs (pos @ [js ''--no-auto-context'']) initialOptions = ?opts"
    unfolding parseArgs_positionals [OF pos] parseArgs_noAuto by (simp add: initialOptions_def)
  have nohelp: "js ''--help'' \<notin> set (pos @ [js ''--no-auto-context''])"
    "js ''-h'' \<notin> set (pos @ [js ''--no-auto-context''])"
    "js ''--version'' \<notin> set (pos @ [js ''--no-auto-context''])"
    "js ''-v'' \<notin> set (pos @ [js ''--no-auto-context''])"
    using positional_no_help [OF pos] noAuto_not_help by auto
  have collect: "collectItems fs stdin ?opts = Inr (pos @ readStdin stdin)"
    by (simp add: collectItems_def initialOptions_def)
  have resolve: "resolveContext parse toStr fs ?opts = (None, [])"
    by (simp add: resolveContext_def initialOptions_def)
  show ?thesis
    unfolding main_request_def Let_def opts collect resolve
    using nohelp nonempty by (simp add: initialOptions_def)
qed

lemma noAuto_flag_suppresses:
  "resolveContext parse toStr fs (parseArgs (js ''--no-auto-context'' # rest) opts)
     = (contextOpt (parseArgs (js ''--no-auto-context'' # rest) opts), [])"
  using noAuto_flag_sets_marker [of rest opts] by (intro resolveContext_suppressed disjI2)

lemma main_request_noAuto_imp:
  "pos \<noteq> [] \<and> (\<forall>a \<in> set pos. \<not> startsWith a (js ''-'')) \<longrightarrow>
   main_request parse toStr stringify byteLength fs stdin (pos @ [js ''--no-auto-context''])
     = Inr ([], callApi_request stringify byteLength (pos @ readStdin stdin) None False False
         None)"
  using main_request_noAuto [of pos] by (intro impI) (elim conjE)

lemma absent_flags_detect:
  "js ''--context'' \<notin> set args \<and> js ''-c'' \<notin> set args
     \<and> js ''--no-auto-context'' \<notin> set args \<longrightarrow>
   \<not> contextExplicitlyProvided (parseArgs args initialOptions)
   \<and> \<not> noAutoContext (parseArgs args initialOptions)
   \<and> resolveContext parse toStr fs (parseArgs args initialOptions)
       = ((case fst (detectProjectContext parse toStr fs) of
             None \<Rightarrow> None
           | Some d \<Rightarrow> if d \<noteq> [] then Some d else None),
          map ConsoleError (snd (detectProjectContext parse toStr fs)))"
proof
  assume absent: "js ''--context'' \<notin> set args \<and> js ''-c'' \<notin> set args
     \<and> js ''--no-auto-context'' \<notin> set args"
  then have same: "contextExplicitlyProvided (parseArgs args initialOptions)
        = contextExplicitlyProvided initialOptions
      \<and> noAutoContext (parseArgs args initialOptions) = noAutoContext initialOptions
      \<and> contextOpt (parseArgs args initialOptions) = contextOpt initialOptions"
    by (intro markers_unchanged) simp_all
  then have unset: "\<not> contextExplicitlyProvided (parseArgs args initialOptions)"
    "\<not> noAutoContext (parseArgs args initialOptions)"
    and none: "contextOpt (parseArgs args initialOptions) = None"
    by (simp_all add: initialOptions_def)
  have "resolveContext parse toStr fs (parseArgs args initialOptions)
       = ((case fst (detectProjectContext parse toStr fs) of
             None \<Rightarrow> contextOpt (parseArgs args initialOptions)
           | Some d \<Rightarrow> if d \<noteq> [] then Some d else contextOpt (parseArgs args initialOptions)),
          map ConsoleError (snd (detectProjectContext parse toStr fs)))"
    using unset by (intro resolveContext_detects [THEN mp] conjI)
  then show "\<not> contextExplicitlyProvided (parseArgs args initialOptions)
   \<and> \<not> noAutoContext (parseArgs args initialOptions)
   \<and> resolveContext parse toStr fs (parseArgs args initialOptions)
       = ((case fst (detectProjectContext parse toStr fs) of
             None \<Rightarrow> None
           | Some d \<Rightarrow> if d \<noteq> [] then Some d else None),
          map ConsoleError (snd (detectProjectContext parse toStr fs)))"
    unfolding none using unset by (intro conjI)
qed

lemma detect_threeFullFiles:
  "detectProjectContext parse toStr threeFullFiles
     = (Some (replicate 300 0x61 @ js '' | '' @ replicate 300 0x61 @ js '' | ''
          @ replicate 100 0x61),
        [js ''Auto-detected project context from: AGENTS.md, CLAUDE.md, CODEX.md (706 chars)''])"
  by (simp add: detectProjectContext_def detectLoop_threeFullFiles report_def js_def showNat.simps)

text \<open>
  C9. When the loop is at \<open>--context\<close> or \<open>-c\<close> the marker is set, whatever
  follows, and detection does not run: the context is the one of the options and nothing is
  written. With the flag last, or followed by the empty string, the context is
  \<open>undefined\<close> or empty, and a run with positional items then sends a body with no
  context, whatever the working directory holds. The same holds when the loop is at
  \<open>--no-auto-context\<close>: its marker is set and stays set. Detection is skipped as soon
  as one of the two markers is set, and when none of the three flags is among the arguments
  both markers are unset and the context is the one detection returns.
\<close>

theorem context_flag_disables_detection:
  "((c = js ''--context'' \<or> c = js ''-c'' \<longrightarrow>
      contextExplicitlyProvided (parseArgs (c # rest) opts)
      \<and> resolveContext parse toStr fs (parseArgs (c # rest) opts)
          = (contextOpt (parseArgs (c # rest) opts), [])
      \<and> parseArgs [c] opts = opts\<lparr>contextOpt := None, contextExplicitlyProvided := True\<rparr>
      \<and> parseArgs [c, []] opts
          = opts\<lparr>contextOpt := Some [], contextExplicitlyProvided := True\<rparr>
      \<and> (pos \<noteq> [] \<and> (\<forall>a \<in> set pos. \<not> startsWith a (js ''-''))
           \<and> (tail = [] \<or> tail = [[]]) \<longrightarrow>
          main_request parse toStr stringify byteLength fs stdin (pos @ c # tail)
          = Inr ([], callApi_request stringify byteLength (pos @ readStdin stdin) None False
              False None)))
   \<and> (contextExplicitlyProvided opts' \<or> noAutoContext opts' \<longrightarrow>
        resolveContext parse toStr fs opts' = (contextOpt opts', []))
   \<and> requestObject its (Some []) stories gherkin = requestObject its None stories gherkin
   \<and> (\<exists>fields. requestObject its None stories gherkin = JObj fields
        \<and> js ''context'' \<notin> fst ` set fields))
   \<and> noAutoContext (parseArgs (js ''--no-auto-context'' # rest) opts)
   \<and> resolveContext parse toStr fs (parseArgs (js ''--no-auto-context'' # rest) opts)
       = (contextOpt (parseArgs (js ''--no-auto-context'' # rest) opts), [])
   \<and> (pos \<noteq> [] \<and> (\<forall>a \<in> set pos. \<not> startsWith a (js ''-'')) \<longrightarrow>
        main_request parse toStr stringify byteLength fs stdin (pos @ [js ''--no-auto-context''])
        = Inr ([], callApi_request stringify byteLength (pos @ readStdin stdin) None False False
            None))
   \<and> (js ''--context'' \<notin> set args \<and> js ''-c'' \<notin> set args
        \<and> js ''--no-auto-context'' \<notin> set args \<longrightarrow>
        \<not> contextExplicitlyProvided (parseArgs args initialOptions)
        \<and> \<not> noAutoContext (parseArgs args initialOptions)
        \<and> resolveContext parse toStr fs (parseArgs args initialOptions)
            = ((case fst (detectProjectContext parse toStr fs) of
                  None \<Rightarrow> None
                | Some d \<Rightarrow> if d \<noteq> [] then Some d else None),
               map ConsoleError (snd (detectProjectContext parse toStr fs))))"
  by (intro conjI context_flag_core noAuto_flag_sets_marker noAuto_flag_suppresses
      main_request_noAuto_imp absent_flags_detect)

theorem context_flag_disables_detection_witness:
  "contextExplicitlyProvided (parseArgs [js ''--context''] initialOptions)
   \<and> contextOpt (parseArgs [js ''--context''] initialOptions) = None
   \<and> resolveContext noParse ToStringStub threeFullFiles
        (parseArgs [js ''--context''] initialOptions) = (None, [])
   \<and> main_request noParse ToStringStub stringifyStub length threeFullFiles None
        [js ''task'', js ''--context'']
       = Inr ([], callApi_request stringifyStub length [js ''task''] None False False None)
   \<and> main_request noParse ToStringStub stringifyStub length threeFullFiles None
        [js ''task'', js ''-c'', []]
       = Inr ([], callApi_request stringifyStub length [js ''task''] None False False None)
   \<and> noAutoContext (parseArgs [js ''--no-auto-context'', js ''task''] initialOptions)
   \<and> resolveContext noParse ToStringStub threeFullFiles
        (parseArgs [js ''--no-auto-context'', js ''task''] initialOptions) = (None, [])
   \<and> main_request noParse ToStringStub stringifyStub length threeFullFiles None
        [js ''task'', js ''--no-auto-context'']
       = Inr ([], callApi_request stringifyStub length [js ''task''] None False False None)
   \<and> resolveContext noParse ToStringStub threeFullFiles (parseArgs [js ''task''] initialOptions)
       = (Some (replicate 300 0x61 @ js '' | '' @ replicate 300 0x61 @ js '' | ''
            @ replicate 100 0x61),
          [ConsoleError
            (js ''Auto-detected project context from: AGENTS.md, CLAUDE.md, CODEX.md (706 chars)'')])"
proof -
  have long: "js ''--context'' = js ''--context'' \<or> js ''--context'' = js ''-c''"
    and short: "js ''-c'' = js ''--context'' \<or> js ''-c'' = js ''-c''"
    by simp_all
  note last = context_flag_disables_detection [where c = "js ''--context''" and rest = "[]"
      and opts = initialOptions and parse = noParse and toStr = ToStringStub
      and fs = threeFullFiles and stringify = stringifyStub and byteLength = length
      and stdin = None and pos = "[js ''task'']" and tail = "[]",
      THEN conjunct1, THEN conjunct1, THEN mp, OF long]
  note empty = context_flag_disables_detection [where c = "js ''-c''"
      and parse = noParse and toStr = ToStringStub
      and fs = threeFullFiles and stringify = stringifyStub and byteLength = length
      and stdin = None and pos = "[js ''task'']" and tail = "[[]]",
      THEN conjunct1, THEN conjunct1, THEN mp, OF short]
  have marker: "contextExplicitlyProvided (parseArgs [js ''--context''] initialOptions)"
    by (rule last [THEN conjunct1])
  have noValue: "contextOpt (parseArgs [js ''--context''] initialOptions) = None"
    unfolding last [THEN conjunct2, THEN conjunct2, THEN conjunct1] by simp
  have resolved: "resolveContext noParse ToStringStub threeFullFiles
        (parseArgs [js ''--context''] initialOptions) = (None, [])"
    using last [THEN conjunct2, THEN conjunct1] noValue by (simp del: parseArgs.simps)
  have positional: "[js ''task''] \<noteq> [] \<and> (\<forall>a \<in> set [js ''task'']. \<not> startsWith a (js ''-''))"
    by (simp add: js_def startsWith_def)
  have tty: "[js ''task''] @ readStdin None = [js ''task'']"
    by (simp add: readStdin_def)
  have "main_request noParse ToStringStub stringifyStub length threeFullFiles None
        ([js ''task''] @ js ''--context'' # [])
       = Inr ([], callApi_request stringifyStub length ([js ''task''] @ readStdin None) None False
           False None)"
    using positional
    by (intro last [THEN conjunct2, THEN conjunct2, THEN conjunct2, THEN conjunct2, THEN mp]) simp
  then have missing: "main_request noParse ToStringStub stringifyStub length threeFullFiles None
        [js ''task'', js ''--context'']
       = Inr ([], callApi_request stringifyStub length [js ''task''] None False False None)"
    unfolding tty by simp
  have "main_request noParse ToStringStub stringifyStub length threeFullFiles None
        ([js ''task''] @ js ''-c'' # [[]])
       = Inr ([], callApi_request stringifyStub length ([js ''task''] @ readStdin None) None False
           False None)"
    using positional
    by (intro empty [THEN conjunct2, THEN conjunct2, THEN conjunct2, THEN conjunct2, THEN mp]) simp
  then have blank: "main_request noParse ToStringStub stringifyStub length threeFullFiles None
        [js ''task'', js ''-c'', []]
       = Inr ([], callApi_request stringifyStub length [js ''task''] None False False None)"
    unfolding tty by simp
  note more = context_flag_disables_detection [where parse = noParse and toStr = ToStringStub
      and fs = threeFullFiles and stringify = stringifyStub and byteLength = length
      and stdin = None and pos = "[js ''task'']" and rest = "[js ''task'']"
      and opts = initialOptions and args = "[js ''task'']"
      and opts' = "parseArgs [js ''--no-auto-context'', js ''task''] initialOptions"]
  have flagged: "noAutoContext (parseArgs [js ''--no-auto-context'', js ''task''] initialOptions)"
    by (rule more [THEN conjunct2, THEN conjunct1])
  then have "contextExplicitlyProvided
        (parseArgs [js ''--no-auto-context'', js ''task''] initialOptions)
      \<or> noAutoContext (parseArgs [js ''--no-auto-context'', js ''task''] initialOptions)"
    by (rule disjI2)
  then have "resolveContext noParse ToStringStub threeFullFiles
        (parseArgs [js ''--no-auto-context'', js ''task''] initialOptions)
      = (contextOpt (parseArgs [js ''--no-auto-context'', js ''task''] initialOptions), [])"
    by (rule more [THEN conjunct1, THEN conjunct2, THEN conjunct1, THEN mp])
  moreover have "contextOpt (parseArgs [js ''--no-auto-context'', js ''task''] initialOptions)
      = None"
    by (simp add: js_def startsWith_def initialOptions_def)
  ultimately have disabled: "resolveContext noParse ToStringStub threeFullFiles
        (parseArgs [js ''--no-auto-context'', js ''task''] initialOptions) = (None, [])"
    by (simp del: parseArgs.simps)
  have "main_request noParse ToStringStub stringifyStub length threeFullFiles None
        ([js ''task''] @ [js ''--no-auto-context''])
       = Inr ([], callApi_request stringifyStub length ([js ''task''] @ readStdin None) None False
           False None)"
    using positional
    by (rule more [THEN conjunct2, THEN conjunct2, THEN conjunct2, THEN conjunct1, THEN mp])
  then have silent: "main_request noParse ToStringStub stringifyStub length threeFullFiles None
        [js ''task'', js ''--no-auto-context'']
       = Inr ([], callApi_request stringifyStub length [js ''task''] None False False None)"
    unfolding tty by simp
  have "js ''--context'' \<notin> set [js ''task''] \<and> js ''-c'' \<notin> set [js ''task'']
      \<and> js ''--no-auto-context'' \<notin> set [js ''task'']"
    by (simp add: js_def)
  then have "resolveContext noParse ToStringStub threeFullFiles
        (parseArgs [js ''task''] initialOptions)
      = ((case fst (detectProjectContext noParse ToStringStub threeFullFiles) of
            None \<Rightarrow> None
          | Some d \<Rightarrow> if d \<noteq> [] then Some d else None),
         map ConsoleError (snd (detectProjectContext noParse ToStringStub threeFullFiles)))"
    by (rule more [THEN conjunct2, THEN conjunct2, THEN conjunct2, THEN conjunct2, THEN mp,
          THEN conjunct2, THEN conjunct2])
  then have detected: "resolveContext noParse ToStringStub threeFullFiles
        (parseArgs [js ''task''] initialOptions)
       = (Some (replicate 300 0x61 @ js '' | '' @ replicate 300 0x61 @ js '' | ''
            @ replicate 100 0x61),
          [ConsoleError
            (js ''Auto-detected project context from: AGENTS.md, CLAUDE.md, CODEX.md (706 chars)'')])"
    unfolding detect_threeFullFiles by (simp add: js_def del: parseArgs.simps)
  from marker noValue resolved missing blank flagged disabled silent detected show ?thesis
    by (intro conjI)
qed

lemma main_request_help:
  "js ''--help'' \<in> set args \<or> js ''-h'' \<in> set args \<longrightarrow>
   main_request parse toStr stringify byteLength fs stdin args = Inl ([ShowHelp], 0)"
  by (simp add: main_request_def)

lemma main_request_version:
  "js ''--help'' \<notin> set args \<and> js ''-h'' \<notin> set args
   \<and> (js ''--version'' \<in> set args \<or> js ''-v'' \<in> set args) \<longrightarrow>
   main_request parse toStr stringify byteLength fs stdin args
     = Inl ([ConsoleLog (js ''refine-backlog-cli v'' @ VERSION)], 0)"
  by (simp add: main_request_def)

lemma main_request_after_loop:
  "js ''--help'' \<notin> set args \<and> js ''-h'' \<notin> set args
   \<and> js ''--version'' \<notin> set args \<and> js ''-v'' \<notin> set args \<longrightarrow>
   main_request parse toStr stringify byteLength fs stdin args
     = main_after_loop parse toStr stringify byteLength fs stdin (parseArgs args initialOptions)"
  by (simp add: main_request_def main_after_loop_def Let_def del: parseArgs.simps)

lemma main_request_consumes:
  "js ''--help'' \<notin> set (a # v # rest) \<and> js ''-h'' \<notin> set (a # v # rest)
   \<and> js ''--version'' \<notin> set (a # v # rest) \<and> js ''-v'' \<notin> set (a # v # rest) \<longrightarrow>
     (a = js ''--format'' \<longrightarrow>
        main_request parse toStr stringify byteLength fs stdin (a # v # rest)
        = main_after_loop parse toStr stringify byteLength fs stdin
            (parseArgs rest
              (initialOptions\<lparr>format := (if v = [] then js ''markdown'' else v)\<rparr>)))
     \<and> (a = js ''--context'' \<or> a = js ''-c'' \<longrightarrow>
        main_request parse toStr stringify byteLength fs stdin (a # v # rest)
        = main_after_loop parse toStr stringify byteLength fs stdin
            (parseArgs rest
              (initialOptions\<lparr>contextOpt := Some v, contextExplicitlyProvided := True\<rparr>)))
     \<and> (a = js ''--key'' \<or> a = js ''-k'' \<longrightarrow>
        main_request parse toStr stringify byteLength fs stdin (a # v # rest)
        = main_after_loop parse toStr stringify byteLength fs stdin
            (parseArgs rest (initialOptions\<lparr>licenseKey := Some v\<rparr>)))
     \<and> (a = js ''--file'' \<or> a = js ''-f'' \<longrightarrow>
        main_request parse toStr stringify byteLength fs stdin (a # v # rest)
        = main_after_loop parse toStr stringify byteLength fs stdin
            (parseArgs rest (initialOptions\<lparr>filePath := Some v\<rparr>)))"
proof
  assume none: "js ''--help'' \<notin> set (a # v # rest) \<and> js ''-h'' \<notin> set (a # v # rest)
   \<and> js ''--version'' \<notin> set (a # v # rest) \<and> js ''-v'' \<notin> set (a # v # rest)"
  have after: "main_request parse toStr stringify byteLength fs stdin (a # v # rest)
      = main_after_loop parse toStr stringify byteLength fs stdin
          (parseArgs (a # v # rest) initialOptions)"
    using none by (rule main_request_after_loop [THEN mp])
  have fmt: "a = js ''--format'' \<longrightarrow>
        main_request parse toStr stringify byteLength fs stdin (a # v # rest)
        = main_after_loop parse toStr stringify byteLength fs stdin
            (parseArgs rest
              (initialOptions\<lparr>format := (if v = [] then js ''markdown'' else v)\<rparr>))"
  proof
    assume "a = js ''--format''"
    then have "parseArgs (a # v # rest) initialOptions
        = parseArgs rest (initialOptions\<lparr>format := (if v = [] then js ''markdown'' else v)\<rparr>)"
      by (simp only: parseArgs_format)
    then show "main_request parse toStr stringify byteLength fs stdin (a # v # rest)
        = main_after_loop parse toStr stringify byteLength fs stdin
            (parseArgs rest
              (initialOptions\<lparr>format := (if v = [] then js ''markdown'' else v)\<rparr>))"
      unfolding after by (rule arg_cong)
  qed
  have ctx: "a = js ''--context'' \<or> a = js ''-c'' \<longrightarrow>
        main_request parse toStr stringify byteLength fs stdin (a # v # rest)
        = main_after_loop parse toStr stringify byteLength fs stdin
            (parseArgs rest
              (initialOptions\<lparr>contextOpt := Some v, contextExplicitlyProvided := True\<rparr>))"
  proof
    assume "a = js ''--context'' \<or> a = js ''-c''"
    then have "parseArgs (a # v # rest) initialOptions
        = parseArgs rest
            (initialOptions\<lparr>contextOpt := Some v, contextExplicitlyProvided := True\<rparr>)"
      by (rule context_consumes [THEN mp])
    then show "main_request parse toStr stringify byteLength fs stdin (a # v # rest)
        = main_after_loop parse toStr stringify byteLength fs stdin
            (parseArgs rest
              (initialOptions\<lparr>contextOpt := Some v, contextExplicitlyProvided := True\<rparr>))"
      unfolding after by (rule arg_cong)
  qed
  have key: "a = js ''--key'' \<or> a = js ''-k'' \<longrightarrow>
        main_request parse toStr stringify byteLength fs stdin (a # v # rest)
        = main_after_loop parse toStr stringify byteLength fs stdin
            (parseArgs rest (initialOptions\<lparr>licenseKey := Some v\<rparr>))"
  proof
    assume "a = js ''--key'' \<or> a = js ''-k''"
    then have "parseArgs (a # v # rest) initialOptions
        = parseArgs rest (initialOptions\<lparr>licenseKey := Some v\<rparr>)"
      by (rule key_consumes [THEN mp])
    then show "main_request parse toStr stringify byteLength fs stdin (a # v # rest)
        = main_after_loop parse toStr stringify byteLength fs stdin
            (parseArgs rest (initialOptions\<lparr>licenseKey := Some v\<rparr>))"
      unfolding after by (rule arg_cong)
  qed
  have fil: "a = js ''--file'' \<or> a = js ''-f'' \<longrightarrow>
        main_request parse toStr stringify byteLength fs stdin (a # v # rest)
        = main_after_loop parse toStr stringify byteLength fs stdin
            (parseArgs rest (initialOptions\<lparr>filePath := Some v\<rparr>))"
  proof
    assume "a = js ''--file'' \<or> a = js ''-f''"
    then have "parseArgs (a # v # rest) initialOptions
        = parseArgs rest (initialOptions\<lparr>filePath := Some v\<rparr>)"
      by (rule file_consumes [THEN mp])
    then show "main_request parse toStr stringify byteLength fs stdin (a # v # rest)
        = main_after_loop parse toStr stringify byteLength fs stdin
            (parseArgs rest (initialOptions\<lparr>filePath := Some v\<rparr>))"
      unfolding after by (rule arg_cong)
  qed
  show "(a = js ''--format'' \<longrightarrow>
        main_request parse toStr stringify byteLength fs stdin (a # v # rest)
        = main_after_loop parse toStr stringify byteLength fs stdin
            (parseArgs rest
              (initialOptions\<lparr>format := (if v = [] then js ''markdown'' else v)\<rparr>)))
     \<and> (a = js ''--context'' \<or> a = js ''-c'' \<longrightarrow>
        main_request parse toStr stringify byteLength fs stdin (a # v # rest)
        = main_after_loop parse toStr stringify byteLength fs stdin
            (parseArgs rest
              (initialOptions\<lparr>contextOpt := Some v, contextExplicitlyProvided := True\<rparr>)))
     \<and> (a = js ''--key'' \<or> a = js ''-k'' \<longrightarrow>
        main_request parse toStr stringify byteLength fs stdin (a # v # rest)
        = main_after_loop parse toStr stringify byteLength fs stdin
            (parseArgs rest (initialOptions\<lparr>licenseKey := Some v\<rparr>)))
     \<and> (a = js ''--file'' \<or> a = js ''-f'' \<longrightarrow>
        main_request parse toStr stringify byteLength fs stdin (a # v # rest)
        = main_after_loop parse toStr stringify byteLength fs stdin
            (parseArgs rest (initialOptions\<lparr>filePath := Some v\<rparr>)))"
    by (intro conjI fmt ctx key fil)
qed

text \<open>
  C10. In the loop, an argument that starts with \<open>-\<close> and is none of its flags
  changes nothing, so it is not an item, and \<open>main\<close> behaves as without it, with no
  error; each of \<open>--format\<close>, \<open>--context\<close>, \<open>-c\<close>, \<open>--key\<close>, \<open>-k\<close>,
  \<open>--file\<close>, \<open>-f\<close> takes the next argument as its value, whatever it is. In
  \<open>main\<close> the loop runs only when none of \<open>--help\<close>, \<open>-h\<close>, \<open>--version\<close>,
  \<open>-v\<close> is among the arguments, and then \<open>main\<close> goes on with the options the loop
  leaves, the value taken included; with one of the four anywhere, also right after a
  value-taking flag, \<open>main\<close> prints the help or the version and exits with 0.
\<close>

theorem dash_arguments_in_default_flow:
  "((startsWith arg (js ''-'')
      \<and> arg \<notin> {js ''--format'', js ''--context'', js ''-c'', js ''--no-auto-context'',
                 js ''--key'', js ''-k'', js ''--file'', js ''-f'', js ''--user-stories'',
                 js ''--gherkin''} \<longrightarrow>
      parseArgs (arg # rest) opts = parseArgs rest opts
      \<and> (arg \<notin> {js ''--help'', js ''-h'', js ''--version'', js ''-v''} \<longrightarrow>
           main_request parse toStr stringify byteLength fs stdin (arg # rest)
           = main_request parse toStr stringify byteLength fs stdin rest))
   \<and> parseArgs (js ''--format'' # v # rest) opts
       = parseArgs rest (opts\<lparr>format := (if v = [] then js ''markdown'' else v)\<rparr>)
   \<and> (c = js ''--context'' \<or> c = js ''-c'' \<longrightarrow>
        parseArgs (c # v # rest) opts
        = parseArgs rest (opts\<lparr>contextOpt := Some v, contextExplicitlyProvided := True\<rparr>))
   \<and> (k = js ''--key'' \<or> k = js ''-k'' \<longrightarrow>
        parseArgs (k # v # rest) opts = parseArgs rest (opts\<lparr>licenseKey := Some v\<rparr>))
   \<and> (f = js ''--file'' \<or> f = js ''-f'' \<longrightarrow>
        parseArgs (f # v # rest) opts = parseArgs rest (opts\<lparr>filePath := Some v\<rparr>)))
   \<and> (js ''--help'' \<in> set args \<or> js ''-h'' \<in> set args \<longrightarrow>
        main_request parse toStr stringify byteLength fs stdin args = Inl ([ShowHelp], 0))
   \<and> (js ''--help'' \<notin> set args \<and> js ''-h'' \<notin> set args
        \<and> (js ''--version'' \<in> set args \<or> js ''-v'' \<in> set args) \<longrightarrow>
        main_request parse toStr stringify byteLength fs stdin args
        = Inl ([ConsoleLog (js ''refine-backlog-cli v'' @ VERSION)], 0))
   \<and> (js ''--help'' \<notin> set args \<and> js ''-h'' \<notin> set args
        \<and> js ''--version'' \<notin> set args \<and> js ''-v'' \<notin> set args \<longrightarrow>
        main_request parse toStr stringify byteLength fs stdin args
        = main_after_loop parse toStr stringify byteLength fs stdin
            (parseArgs args initialOptions))
   \<and> (js ''--help'' \<notin> set (a # v # rest) \<and> js ''-h'' \<notin> set (a # v # rest)
   \<and> js ''--version'' \<notin> set (a # v # rest) \<and> js ''-v'' \<notin> set (a # v # rest) \<longrightarrow>
     (a = js ''--format'' \<longrightarrow>
        main_request parse toStr stringify byteLength fs stdin (a # v # rest)
        = main_after_loop parse toStr stringify byteLength fs stdin
            (parseArgs rest
              (initialOptions\<lparr>format := (if v = [] then js ''markdown'' else v)\<rparr>)))
     \<and> (a = js ''--context'' \<or> a = js ''-c'' \<longrightarrow>
        main_request parse toStr stringify byteLength fs stdin (a # v # rest)
        = main_after_loop parse toStr stringify byteLength fs stdin
            (parseArgs rest
              (initialOptions\<lparr>contextOpt := Some v, contextExplicitlyProvided := True\<rparr>)))
     \<and> (a = js ''--key'' \<or> a = js ''-k'' \<longrightarrow>
        main_request parse toStr stringify byteLength fs stdin (a # v # rest)
        = main_after_loop parse toStr stringify byteLength fs stdin
            (parseArgs rest (initialOptions\<lparr>licenseKey := Some v\<rparr>)))
     \<and> (a = js ''--file'' \<or> a = js ''-f'' \<longrightarrow>
        main_request parse toStr stringify byteLength fs stdin (a # v # rest)
        = main_after_loop parse toStr stringify byteLength fs stdin
            (parseArgs rest (initialOptions\<lparr>filePath := Some v\<rparr>))))"
  by (intro conjI dash_arguments_in_loop main_request_help main_request_version main_request_after_loop
      main_request_consumes)

text \<open>
  After \<open>--key\<close> the loop alone would take \<open>-v\<close> as the key and the request
  would carry it, but \<open>main\<close> sees \<open>-v\<close> first, prints the version and exits.
\<close>

theorem version_flag_not_consumed_counterexample:
  "main_request noParse ToStringStub stringifyStub length backlogOnly None
     [js ''--key'', js ''-v'', js ''task'']
     = Inl ([ConsoleLog (js ''refine-backlog-cli v1.0.2'')], 0)
   \<and> parseArgs [js ''--key'', js ''-v'', js ''task''] initialOptions
     = initialOptions\<lparr>items := [js ''task''], licenseKey := Some (js ''-v'')\<rparr>
   \<and> main_after_loop noParse ToStringStub stringifyStub length backlogOnly None
       (parseArgs [js ''--key'', js ''-v'', js ''task''] initialOptions)
     = Inr ([], callApi_request stringifyStub length [js ''task''] None False False
         (Some (js ''-v'')))"
proof -
  have exits: "main_request noParse ToStringStub stringifyStub length backlogOnly None
     [js ''--key'', js ''-v'', js ''task'']
     = Inl ([ConsoleLog (js ''refine-backlog-cli v1.0.2'')], 0)"
    by (simp add: main_request_def VERSION_def js_def)
  have loop: "parseArgs [js ''--key'', js ''-v'', js ''task''] initialOptions
     = initialOptions\<lparr>items := [js ''task''], licenseKey := Some (js ''-v'')\<rparr>"
    by (simp add: js_def startsWith_def nextArg_def initialOptions_def)
  have sent: "main_after_loop noParse ToStringStub stringifyStub length backlogOnly None
       (parseArgs [js ''--key'', js ''-v'', js ''task''] initialOptions)
     = Inr ([], callApi_request stringifyStub length [js ''task''] None False False
         (Some (js ''-v'')))"
    unfolding loop
    by (simp add: main_after_loop_def collectItems_def readStdin_def resolveContext_def
        detect_backlogOnly initialOptions_def)
  from exits loop sent show ?thesis by (intro conjI)
qed

theorem dash_arguments_in_default_flow_witness:
  "parseArgs [js ''--verbose'', js ''task''] initialOptions = parseArgs [js ''task''] initialOptions
   \<and> items (parseArgs [js ''--verbose'', js ''task''] initialOptions) = [js ''task'']
   \<and> main_request noParse ToStringStub stringifyStub length backlogOnly None
         [js ''--verbose'', js ''task'']
       = main_request noParse ToStringStub stringifyStub length backlogOnly None [js ''task'']
   \<and> parseArgs [js ''--key'', js ''--gherkin'', js ''task''] initialOptions
       = initialOptions\<lparr>items := [js ''task''], licenseKey := Some (js ''--gherkin'')\<rparr>
   \<and> parseArgs [js ''-c'', js ''-f'', js ''task''] initialOptions
       = initialOptions\<lparr>items := [js ''task''], contextOpt := Some (js ''-f''),
           contextExplicitlyProvided := True\<rparr>
   \<and> parseArgs [js ''--file'', js ''--format'', js ''task''] initialOptions
       = initialOptions\<lparr>items := [js ''task''], filePath := Some (js ''--format'')\<rparr>
   \<and> parseArgs [js ''--format'', js ''--key'', js ''task''] initialOptions
       = initialOptions\<lparr>items := [js ''task''], format := js ''--key''\<rparr>
   \<and> main_request noParse ToStringStub stringifyStub length backlogOnly None
        [js ''--key'', js ''--help'', js ''task''] = Inl ([ShowHelp], 0)
   \<and> main_request noParse ToStringStub stringifyStub length backlogOnly None
        [js ''--file'', js ''--version'', js ''task'']
       = Inl ([ConsoleLog (js ''refine-backlog-cli v1.0.2'')], 0)
   \<and> main_request noParse ToStringStub stringifyStub length backlogOnly None
        [js ''--key'', js ''--gherkin'', js ''task'']
       = Inr ([], callApi_request stringifyStub length [js ''task''] None False False
           (Some (js ''--gherkin'')))"
proof -
  have task: "parseArgs [js ''task''] opts = opts\<lparr>items := items opts @ [js ''task'']\<rparr>" for opts
    by (simp add: js_def startsWith_def)
  have verbose: "startsWith (js ''--verbose'') (js ''-'')
      \<and> js ''--verbose'' \<notin> {js ''--format'', js ''--context'', js ''-c'', js ''--no-auto-context'',
                 js ''--key'', js ''-k'', js ''--file'', js ''-f'', js ''--user-stories'',
                 js ''--gherkin''}"
    and other: "js ''--verbose'' \<notin> {js ''--help'', js ''-h'', js ''--version'', js ''-v''}"
    by (simp_all add: js_def startsWith_def)
  note ignored = dash_arguments_in_default_flow [where arg = "js ''--verbose''"
      and rest = "[js ''task'']" and opts = initialOptions and parse = noParse
      and toStr = ToStringStub and stringify = stringifyStub and byteLength = length
      and fs = backlogOnly and stdin = None, THEN conjunct1, THEN conjunct1, THEN mp, OF verbose]
  note consumed = dash_arguments_in_default_flow [where rest = "[js ''task'']"
      and opts = initialOptions, THEN conjunct1, THEN conjunct2]
  have a: "parseArgs [js ''--verbose'', js ''task''] initialOptions
      = parseArgs [js ''task''] initialOptions"
    by (rule ignored [THEN conjunct1])
  have b: "items (parseArgs [js ''--verbose'', js ''task''] initialOptions) = [js ''task'']"
    unfolding a task by (simp add: initialOptions_def)
  have c: "main_request noParse ToStringStub stringifyStub length backlogOnly None
         [js ''--verbose'', js ''task'']
       = main_request noParse ToStringStub stringifyStub length backlogOnly None [js ''task'']"
    by (rule ignored [THEN conjunct2, THEN mp, OF other])
  have d: "parseArgs [js ''--key'', js ''--gherkin'', js ''task''] initialOptions
       = initialOptions\<lparr>items := [js ''task''], licenseKey := Some (js ''--gherkin'')\<rparr>"
    unfolding consumed [THEN conjunct2, THEN conjunct2, THEN conjunct1, THEN mp,
        OF disjI1 [OF refl]] task
    by (simp add: initialOptions_def)
  have e: "parseArgs [js ''-c'', js ''-f'', js ''task''] initialOptions
       = initialOptions\<lparr>items := [js ''task''], contextOpt := Some (js ''-f''),
           contextExplicitlyProvided := True\<rparr>"
    unfolding consumed [THEN conjunct2, THEN conjunct1, THEN mp, OF disjI2 [OF refl]] task
    by (simp add: initialOptions_def)
  have f: "parseArgs [js ''--file'', js ''--format'', js ''task''] initialOptions
       = initialOptions\<lparr>items := [js ''task''], filePath := Some (js ''--format'')\<rparr>"
    unfolding consumed [THEN conjunct2, THEN conjunct2, THEN conjunct2, THEN mp,
        OF disjI1 [OF refl]] task
    by (simp add: initialOptions_def)
  have nonempty: "js ''--key'' \<noteq> []"
    by (simp add: js_def)
  have g: "parseArgs [js ''--format'', js ''--key'', js ''task''] initialOptions
       = initialOptions\<lparr>items := [js ''task''], format := js ''--key''\<rparr>"
    unfolding consumed [THEN conjunct1] task
    by (simp add: initialOptions_def nonempty)
  note flow = dash_arguments_in_default_flow [where parse = noParse and toStr = ToStringStub
      and stringify = stringifyStub and byteLength = length and fs = backlogOnly
      and stdin = None, THEN conjunct2]
  have "js ''--help'' \<in> set [js ''--key'', js ''--help'', js ''task'']
      \<or> js ''-h'' \<in> set [js ''--key'', js ''--help'', js ''task'']"
    by simp
  then have h: "main_request noParse ToStringStub stringifyStub length backlogOnly None
        [js ''--key'', js ''--help'', js ''task''] = Inl ([ShowHelp], 0)"
    by (rule flow [THEN conjunct1, THEN mp])
  have "js ''--help'' \<notin> set [js ''--file'', js ''--version'', js ''task'']
      \<and> js ''-h'' \<notin> set [js ''--file'', js ''--version'', js ''task'']
      \<and> (js ''--version'' \<in> set [js ''--file'', js ''--version'', js ''task'']
          \<or> js ''-v'' \<in> set [js ''--file'', js ''--version'', js ''task''])"
    by (simp add: js_def)
  then have "main_request noParse ToStringStub stringifyStub length backlogOnly None
        [js ''--file'', js ''--version'', js ''task'']
       = Inl ([ConsoleLog (js ''refine-backlog-cli v'' @ VERSION)], 0)"
    by (rule flow [THEN conjunct2, THEN conjunct1, THEN mp])
  then have i: "main_request noParse ToStringStub stringifyStub length backlogOnly None
        [js ''--file'', js ''--version'', js ''task'']
       = Inl ([ConsoleLog (js ''refine-backlog-cli v1.0.2'')], 0)"
    by (simp add: VERSION_def js_def)
  have none: "js ''--help'' \<notin> set (js ''--key'' # js ''--gherkin'' # [js ''task''])
      \<and> js ''-h'' \<notin> set (js ''--key'' # js ''--gherkin'' # [js ''task''])
      \<and> js ''--version'' \<notin> set (js ''--key'' # js ''--gherkin'' # [js ''task''])
      \<and> js ''-v'' \<notin> set (js ''--key'' # js ''--gherkin'' # [js ''task''])"
    by (simp add: js_def)
  have "main_request noParse ToStringStub stringifyStub length backlogOnly None
        (js ''--key'' # js ''--gherkin'' # [js ''task''])
       = main_after_loop noParse ToStringStub stringifyStub length backlogOnly None
           (parseArgs [js ''task''] (initialOptions\<lparr>licenseKey := Some (js ''--gherkin'')\<rparr>))"
    by (rule flow [THEN conjunct2, THEN conjunct2, THEN conjunct2, THEN mp, OF none,
          THEN conjunct2, THEN conjunct2, THEN conjunct1, THEN mp, OF disjI1 [OF refl]])
  then have j: "main_request noParse ToStringStub stringifyStub length backlogOnly None
        [js ''--key'', js ''--gherkin'', js ''task'']
       = Inr ([], callApi_request stringifyStub length [js ''task''] None False False
           (Some (js ''--gherkin'')))"
    unfolding task
    by (simp add: main_after_loop_def collectItems_def readStdin_def resolveContext_def
        detect_backlogOnly initialOptions_def)
  from a b c d e f g h i j show ?thesis by (intro conjI)
qed

end
